theory Spec2Isabelle
  imports Main "HOL-Library.Char_ord" "HOL-Library.List_Lexorder"
begin

section \<open>Python strings\<close>

text \<open>
  A Python \<open>str\<close> is modelled as a \<open>string\<close>, one \<open>char\<close> per code point; the model
  covers the code points below 256. The character tests below are the ones of
  \<open>str.isspace\<close> (which the regular expression class \<open>\s\<close> shares) and \<open>str.lower\<close>
  on that range.
\<close>

definition isspace :: "char \<Rightarrow> bool" where
  "isspace c = (of_char c \<in> {9, 10, 11, 12, 13, 28, 29, 30, 31, 32, 133, 160 :: nat})"

definition lower_char :: "char \<Rightarrow> char" where
  "lower_char c =
     (let n = (of_char c :: nat)
      in if (65 \<le> n \<and> n \<le> 90) \<or> (192 \<le> n \<and> n \<le> 222 \<and> n \<noteq> 215)
         then char_of (n + 32) else c)"

definition lower :: "string \<Rightarrow> string" where
  "lower s = map lower_char s"

text \<open>\<open>s.strip()\<close> and \<open>s.strip(chars)\<close>: drop the longest prefix and the longest suffix
  made of the given characters.\<close>

definition strip_with :: "(char \<Rightarrow> bool) \<Rightarrow> string \<Rightarrow> string" where
  "strip_with p s = rev (dropWhile p (rev (dropWhile p s)))"

definition strip :: "string \<Rightarrow> string" where
  "strip s = strip_with isspace s"

definition strip_chars :: "string \<Rightarrow> string \<Rightarrow> string" where
  "strip_chars chars s = strip_with (\<lambda>c. c \<in> set chars) s"

text \<open>\<open>sep.join(parts)\<close>.\<close>

fun join :: "string \<Rightarrow> string list \<Rightarrow> string" where
  "join sep [] = []"
| "join sep [x] = x"
| "join sep (x # y # ys) = x @ sep @ join sep (y # ys)"

text \<open>\<open>str(n)\<close> for a Python integer: decimal digits, with a minus sign when negative.\<close>

definition digit_char :: "nat \<Rightarrow> char" where
  "digit_char d = char_of (48 + d)"

function str_nat :: "nat \<Rightarrow> string" where
  "str_nat n = (if n < 10 then [digit_char n] else str_nat (n div 10) @ [digit_char (n mod 10)])"
  by pat_completeness auto
termination
  by (relation "measure (\<lambda>n. n)") auto

declare str_nat.simps [simp del]

definition str_int :: "int \<Rightarrow> string" where
  "str_int i = (if i < 0 then CHR ''-'' # str_nat (nat (- i)) else str_nat (nat i))"

section \<open>File names\<close>

text \<open>The character class \<open>[A-Za-z0-9_-]\<close>, whose complement the pattern of
  \<open>safe_filename\<close> matches.\<close>

definition name_char :: "char \<Rightarrow> bool" where
  "name_char c =
     (let n = (of_char c :: nat)
      in (65 \<le> n \<and> n \<le> 90) \<or> (97 \<le> n \<and> n \<le> 122) \<or> (48 \<le> n \<and> n \<le> 57)
         \<or> c = CHR ''_'' \<or> c = CHR ''-'')"

text \<open>
  \<open>re.sub(r"[^A-Za-z0-9_-]+", "_", title)\<close>: the scan goes left to right; at a character
  of the class it copies the character, at any other character the greedy \<open>+\<close> takes the
  whole run of such characters and the replacement is written once.
\<close>

function re_sub_unsafe :: "string \<Rightarrow> string" where
  "re_sub_unsafe [] = []"
| "re_sub_unsafe (c # cs) =
     (if name_char c then c # re_sub_unsafe cs
      else CHR ''_'' # re_sub_unsafe (dropWhile (\<lambda>x. \<not> name_char x) cs))"
  by pat_completeness auto
termination
  by (relation "measure length") (auto simp: length_dropWhile_le less_Suc_eq_le)

definition safe_filename :: "string \<Rightarrow> int \<Rightarrow> string" where
  "safe_filename title row_index =
     (let stripped = strip_chars ''_'' (re_sub_unsafe title);
          safe = (if stripped = [] then ''event'' else stripped)
      in safe @ ''_'' @ str_int row_index @ ''.ics'')"

subsection \<open>The file name as the specification words it\<close>

text \<open>
  The specification describes the name by runs: the title is cut into its maximal
  blocks of characters that lie all inside or all outside the class, every outside block
  becomes one underscore, the underscores at both ends are trimmed, an empty result
  becomes \<open>event\<close>, and \<open>_{index}.ics\<close> is appended.
\<close>

fun blocks :: "('a \<Rightarrow> bool) \<Rightarrow> 'a list \<Rightarrow> 'a list list" where
  "blocks p [] = []"
| "blocks p (x # xs) =
     (case blocks p xs of
        [] \<Rightarrow> [[x]]
      | b # bs \<Rightarrow> if p x = p (hd b) then (x # b) # bs else [x] # b # bs)"

definition spec_collapse :: "string \<Rightarrow> string" where
  "spec_collapse title =
     concat (map (\<lambda>b. if name_char (hd b) then b else ''_'') (blocks name_char title))"

definition spec_trim :: "string \<Rightarrow> string" where
  "spec_trim s =
     (let t = dropWhile (\<lambda>c. c = CHR ''_'') s
      in take (length t - length (takeWhile (\<lambda>c. c = CHR ''_'') (rev t))) t)"

definition spec_filename :: "string \<Rightarrow> int \<Rightarrow> string" where
  "spec_filename title row_index =
     (let t = spec_trim (spec_collapse title)
      in (if t = [] then ''event'' else t) @ ''_'' @ str_int row_index @ ''.ics'')"


section \<open>Errors and time values\<close>

datatype error = ValueError string | ParserError string | KeyError string | OverflowError

text \<open>
  A \<open>timedelta\<close> is kept normalised as Python keeps it: any number of days, seconds in
  \<open>0..86399\<close>, microseconds in \<open>0..999999\<close>. The constructor raises \<open>OverflowError\<close> when
  the days leave \<open>-999999999..999999999\<close>. The program builds a \<open>timedelta\<close> from hours and
  from minutes only.
\<close>

record timedelta =
  days :: int
  seconds :: int
  microseconds :: int

definition timedelta_new :: "int \<Rightarrow> int \<Rightarrow> error + timedelta" where
  "timedelta_new hours minutes =
     (let s = hours * 3600 + minutes * 60;
          d = s div 86400
      in if 999999999 < \<bar>d\<bar> then Inl OverflowError
         else Inr \<lparr>days = d, seconds = s mod 86400, microseconds = 0\<rparr>)"


text \<open>
  A \<open>datetime\<close>. The calendar date is held as its proleptic Gregorian ordinal
  (\<open>date.toordinal()\<close>, day 1 is 0001-01-01 and day 3652059 is 9999-12-31), the form in
  which the library adds a \<open>timedelta\<close>; the order of ordinals is the order of dates.
  An aware value carries its \<open>tzinfo\<close>, with the offset from UTC in seconds.
\<close>

record tzinfo =
  tzname :: string
  utcoffset :: int

record datetime =
  ordinal :: nat
  hour :: nat
  minute :: nat
  second :: nat
  microsecond :: nat
  tzinfo :: "tzinfo option"

record time =
  t_hour :: nat
  t_minute :: nat
  t_second :: nat
  t_microsecond :: nat

definition MAXORDINAL :: int where
  "MAXORDINAL = 3652059"

text \<open>\<open>dt.time()\<close>: the time of day, without the \<open>tzinfo\<close>.\<close>

definition time_of :: "datetime \<Rightarrow> time" where
  "time_of dt =
     \<lparr>t_hour = hour dt, t_minute = minute dt, t_second = second dt,
      t_microsecond = microsecond dt\<rparr>"

text \<open>
  \<open>dt + td\<close>: the library turns the datetime into days, seconds and microseconds, adds,
  normalises, and raises \<open>OverflowError\<close> when the day leaves \<open>1..MAXORDINAL\<close>. The
  \<open>tzinfo\<close> is kept.
\<close>

definition datetime_add :: "datetime \<Rightarrow> timedelta \<Rightarrow> error + datetime" where
  "datetime_add dt td =
     (let us = int (microsecond dt) + microseconds td;
          secs = int (hour dt) * 3600 + int (minute dt) * 60 + int (second dt)
                 + seconds td + us div 1000000;
          d = int (ordinal dt) + days td + secs div 86400;
          s = secs mod 86400
      in if 0 < d \<and> d \<le> MAXORDINAL
         then Inr (dt\<lparr>ordinal := nat d, hour := nat (s div 3600),
                       minute := nat (s mod 3600 div 60), second := nat (s mod 60),
                       microsecond := nat (us mod 1000000)\<rparr>)
         else Inl OverflowError)"

text \<open>
  Comparison of two datetimes that share their \<open>tzinfo\<close>, which is the only comparison
  the program makes (both operands come from one \<open>replace\<close> each on the same value): the
  fields are compared in order, the offsets play no part.
\<close>

definition datetime_lt :: "datetime \<Rightarrow> datetime \<Rightarrow> bool" where
  "datetime_lt a b =
     (ordinal a < ordinal b \<or> (ordinal a = ordinal b \<and>
       (hour a < hour b \<or> (hour a = hour b \<and>
         (minute a < minute b \<or> (minute a = minute b \<and>
           (second a < second b \<or> (second a = second b \<and>
             microsecond a < microsecond b))))))))"

definition same_fields :: "datetime \<Rightarrow> datetime \<Rightarrow> bool" where
  "same_fields a b =
     (ordinal a = ordinal b \<and> hour a = hour b \<and> minute a = minute b
      \<and> second a = second b \<and> microsecond a = microsecond b)"

definition datetime_le :: "datetime \<Rightarrow> datetime \<Rightarrow> bool" where
  "datetime_le a b = (datetime_lt a b \<or> same_fields a b)"

subsection \<open>Time zones\<close>

text \<open>
  The \<open>tz\<close> argument is an object of the time zone library. The program uses two of its
  operations: \<open>tz.localize(dt)\<close> on a naive value and \<open>dt.astimezone(tz)\<close> on an aware one.
  Both may raise.
\<close>

record timezone =
  zone :: string
  localize :: "datetime \<Rightarrow> error + datetime"
  astimezone :: "datetime \<Rightarrow> error + datetime"

text \<open>
  The zone \<open>UTC\<close>, the default of \<open>--timezone\<close>. \<open>localize\<close> attaches the zone to the
  fields as they are. \<open>astimezone\<close> subtracts the offset of the value, which raises
  \<open>OverflowError\<close> when the result leaves the range of dates, and attaches the zone;
  it is not called on a naive value by the program.
\<close>

definition utc_info :: tzinfo where
  "utc_info = \<lparr>tzname = ''UTC'', utcoffset = 0\<rparr>"

definition utc :: timezone where
  "utc =
     \<lparr>zone = ''UTC'',
      localize = (\<lambda>dt. Inr (dt\<lparr>tzinfo := Some utc_info\<rparr>)),
      astimezone = (\<lambda>dt.
        case tzinfo dt of
          None \<Rightarrow> Inr (dt\<lparr>tzinfo := Some utc_info\<rparr>)
        | Some ti \<Rightarrow>
            (case datetime_add dt \<lparr>days = 0, seconds = - utcoffset ti, microseconds = 0\<rparr> of
               Inl e \<Rightarrow> Inl e
             | Inr u \<Rightarrow> Inr (u\<lparr>tzinfo := Some utc_info\<rparr>)))\<rparr>"


section \<open>Cells and rows\<close>

text \<open>
  \<open>str(dt)\<close> for a datetime is \<open>dt.isoformat(sep=' ')\<close>. The year, month and day are
  computed from the ordinal as the library does.
\<close>

definition zfill :: "nat \<Rightarrow> string \<Rightarrow> string" where
  "zfill w s = replicate (w - length s) (CHR ''0'') @ s"

definition DAYS_BEFORE_MONTH :: "nat list" where
  "DAYS_BEFORE_MONTH = [0, 0, 31, 59, 90, 120, 151, 181, 212, 243, 273, 304, 334]"

definition DAYS_IN_MONTH :: "nat list" where
  "DAYS_IN_MONTH = [0, 31, 28, 31, 30, 31, 30, 31, 31, 30, 31, 30, 31]"

definition ord2ymd :: "nat \<Rightarrow> nat \<times> nat \<times> nat" where
  "ord2ymd n0 =
     (let n = n0 - 1;
          n400 = n div 146097; n = n mod 146097;
          n100 = n div 36524; n = n mod 36524;
          n4 = n div 1461; n = n mod 1461;
          n1 = n div 365; n = n mod 365;
          year = n400 * 400 + 1 + n100 * 100 + n4 * 4 + n1
      in if n1 = 4 \<or> n100 = 4 then (year - 1, 12, 31)
         else
           let leapyear = (n1 = 3 \<and> (n4 \<noteq> 24 \<or> n100 = 3));
               month = (n + 50) div 32;
               preceding = DAYS_BEFORE_MONTH ! month + (if 2 < month \<and> leapyear then 1 else 0)
           in if n < preceding
              then let month' = month - 1;
                       preceding' = preceding
                         - (DAYS_IN_MONTH ! month' + (if month' = 2 \<and> leapyear then 1 else 0))
                   in (year, month', n - preceding' + 1)
              else (year, month, n - preceding + 1))"

definition format_offset :: "int \<Rightarrow> string" where
  "format_offset off =
     (let a = nat \<bar>off\<bar>
      in (if off < 0 then ''-'' else ''+'') @ zfill 2 (str_nat (a div 3600)) @ '':''
         @ zfill 2 (str_nat (a mod 3600 div 60))
         @ (if a mod 60 = 0 then [] else '':'' @ zfill 2 (str_nat (a mod 60))))"

definition str_datetime :: "datetime \<Rightarrow> string" where
  "str_datetime dt =
     (case ord2ymd (ordinal dt) of (y, m, d) \<Rightarrow>
        zfill 4 (str_nat y) @ ''-'' @ zfill 2 (str_nat m) @ ''-'' @ zfill 2 (str_nat d)
        @ '' '' @ zfill 2 (str_nat (hour dt)) @ '':'' @ zfill 2 (str_nat (minute dt))
        @ '':'' @ zfill 2 (str_nat (second dt))
        @ (if microsecond dt = 0 then [] else ''.'' @ zfill 6 (str_nat (microsecond dt)))
        @ (case tzinfo dt of None \<Rightarrow> [] | Some ti \<Rightarrow> format_offset (utcoffset ti)))"

text \<open>
  A cell value (\<open>Any\<close> in the source). The program asks of a value whether it is a
  \<open>datetime\<close> and otherwise only takes its \<open>str\<close>: a value that is neither a datetime
  nor a string (a number, a boolean, a missing value) is held as \<open>Other\<close> with the text
  that \<open>str\<close> gives for it.
\<close>

datatype cell = DateTime datetime | Str string | Other string

fun str_cell :: "cell \<Rightarrow> string" where
  "str_cell (DateTime dt) = str_datetime dt"
| "str_cell (Str s) = s"
| "str_cell (Other s) = s"

text \<open>
  A row is a \<open>dict\<close> from column name to cell, in insertion order: an association list.
  \<open>row.get(key, default)\<close>, \<open>row[key]\<close> and the assignment that builds a dict.
\<close>

type_synonym row = "(string \<times> cell) list"

definition row_get :: "row \<Rightarrow> string \<Rightarrow> cell \<Rightarrow> cell" where
  "row_get row key dflt = (case map_of row key of None \<Rightarrow> dflt | Some v \<Rightarrow> v)"

definition row_item :: "row \<Rightarrow> string \<Rightarrow> error + cell" where
  "row_item row key = (case map_of row key of None \<Rightarrow> Inl (KeyError key) | Some v \<Rightarrow> Inr v)"

fun dict_set :: "string \<Rightarrow> cell \<Rightarrow> row \<Rightarrow> row" where
  "dict_set k v [] = [(k, v)]"
| "dict_set k v ((k', v') # kvs) =
     (if k' = k then (k, v) # kvs else (k', v') # dict_set k v kvs)"

section \<open>The lenient parser\<close>

text \<open>
  \<open>date_parser.parse(timestr)\<close> is the date parsing library's. Called without a
  \<open>default\<close>, as the program calls it, it takes today's date at midnight as the default
  and lets the fields it finds in \<open>timestr\<close> replace the default's. The environment holds
  the library's parser, as a function of the default and the text, and the clock. It
  also holds the text that the data frame library prints for a Series, given the name of
  the Series and its labelled cells: \<open>main\<close> asks for it when a row has several cells
  under one label.
\<close>

record env =
  parser :: "datetime \<Rightarrow> string \<Rightarrow> error + datetime"
  now :: datetime
  series_text :: "int \<Rightarrow> (string \<times> cell) list \<Rightarrow> string"

definition date_parser_parse :: "env \<Rightarrow> string \<Rightarrow> error + datetime" where
  "date_parser_parse E timestr =
     parser E ((now E)\<lparr>hour := 0, minute := 0, second := 0, microsecond := 0\<rparr>) timestr"

section \<open>The row transformer\<close>

definition parse_datetime :: "env \<Rightarrow> cell \<Rightarrow> timezone \<Rightarrow> error + datetime" where
  "parse_datetime E v tz =
     (case (case v of DateTime d \<Rightarrow> Inr d | _ \<Rightarrow> date_parser_parse E (str_cell v)) of
        Inl e \<Rightarrow> Inl e
      | Inr dt \<Rightarrow>
          (case tzinfo dt of
             None \<Rightarrow> localize tz dt
           | Some _ \<Rightarrow> astimezone tz dt))"

text \<open>
  \<open>re.split(r"\s*-\s*", s, maxsplit=1)\<close>. \<open>match_sep\<close> matches the pattern at the start of
  a text and gives what follows the match: the greedy \<open>\s*\<close> takes every blank, a hyphen
  must follow (no shorter run of blanks is followed by one), the second \<open>\s*\<close> takes
  every blank after it. \<open>search_sep\<close> looks for the leftmost position with a match and
  gives the text before it and the text after it. One split gives one or two parts.
\<close>

definition match_sep :: "string \<Rightarrow> string option" where
  "match_sep s =
     (case dropWhile isspace s of
        [] \<Rightarrow> None
      | c # rest \<Rightarrow> if c = CHR ''-'' then Some (dropWhile isspace rest) else None)"

fun search_sep :: "string \<Rightarrow> (string \<times> string) option" where
  "search_sep [] = None"
| "search_sep (c # cs) =
     (case match_sep (c # cs) of
        Some after \<Rightarrow> Some ([], after)
      | None \<Rightarrow>
          (case search_sep cs of
             None \<Rightarrow> None
           | Some (before, after) \<Rightarrow> Some (c # before, after)))"

definition re_split :: "string \<Rightarrow> string list" where
  "re_split s = (case search_sep s of None \<Rightarrow> [s] | Some (before, after) \<Rightarrow> [before, after])"

definition parse_time_range :: "env \<Rightarrow> cell \<Rightarrow> error + time \<times> time" where
  "parse_time_range E v =
     (case re_split (str_cell v) of
        [p0, p1] \<Rightarrow>
          (case date_parser_parse E p0 of
             Inl e \<Rightarrow> Inl e
           | Inr d0 \<Rightarrow>
               (case date_parser_parse E p1 of
                  Inl e \<Rightarrow> Inl e
                | Inr d1 \<Rightarrow> Inr (time_of d0, time_of d1)))
      | _ \<Rightarrow> Inl (ValueError
          (''Time column must contain a start and end time separated by a hyphen ''
           @ ''(e.g., '' @ [CHR 0x27] @ ''9:00 AM - 10:00 AM'' @ [CHR 0x27] @ '').'')))"

text \<open>\<open>row_description\<close>: the loop appends one line per item of the row, then the lines
  are joined with newlines.\<close>

fun description_lines :: "string list \<Rightarrow> row \<Rightarrow> string list" where
  "description_lines lines [] = lines"
| "description_lines lines ((key, v) # items) =
     description_lines (lines @ [''- '' @ key @ '': '' @ str_cell v]) items"

definition row_description :: "row \<Rightarrow> string" where
  "row_description row =
     join [CHR 0x0A] (description_lines [''Event details from spreadsheet:''] row)"

subsection \<open>Calendar objects\<close>

text \<open>
  A calendar object of the calendar library is a component: a name, the properties in
  the order they were added, and the sub-components in the order they were added.
  \<open>Calendar()\<close>, \<open>Event()\<close> and \<open>Alarm()\<close> make the empty components \<open>VCALENDAR\<close>,
  \<open>VEVENT\<close> and \<open>VALARM\<close>; \<open>add\<close> and \<open>add_component\<close> return the component updated.
\<close>

datatype pvalue = Text string | DateTimeProp datetime | DurationProp timedelta | BoolProp bool

datatype component =
  Component (comp_name: string) (properties: "(string \<times> pvalue) list")
    (subcomponents: "component list")

definition Calendar :: component where
  "Calendar = Component ''VCALENDAR'' [] []"

definition Event :: component where
  "Event = Component ''VEVENT'' [] []"

definition Alarm :: component where
  "Alarm = Component ''VALARM'' [] []"

definition add :: "string \<Rightarrow> pvalue \<Rightarrow> component \<Rightarrow> component" where
  "add name v c = Component (comp_name c) (properties c @ [(name, v)]) (subcomponents c)"

definition add_component :: "component \<Rightarrow> component \<Rightarrow> component" where
  "add_component sub c = Component (comp_name c) (properties c) (subcomponents c @ [sub])"

subsection \<open>Building the event of a row\<close>

text \<open>\<open>start.replace(hour=t.hour, minute=t.minute, second=t.second, microsecond=0)\<close>: the
  date and the \<open>tzinfo\<close> of \<open>start\<close> are kept. The fields of a time of day are in
  range, so \<open>replace\<close> does not raise.\<close>

definition replace_time :: "datetime \<Rightarrow> time \<Rightarrow> datetime" where
  "replace_time start t =
     start\<lparr>hour := t_hour t, minute := t_minute t, second := t_second t, microsecond := 0\<rparr>"

definition build_event :: "env \<Rightarrow> row \<Rightarrow> timezone \<Rightarrow> int \<Rightarrow> error + component" where
  "build_event E row tz alert_minutes =
     (let t = strip (str_cell (row_get row ''title'' (Str ''Event'')));
          title = (if t = [] then ''Event'' else t);
          venue = strip (str_cell (row_get row ''venue'' (Str [])))
      in case row_item row ''date'' of Inl e \<Rightarrow> Inl e | Inr date_cell \<Rightarrow>
         case parse_datetime E date_cell tz of Inl e \<Rightarrow> Inl e | Inr start \<Rightarrow>
         case row_item row ''time'' of Inl e \<Rightarrow> Inl e | Inr time_cell \<Rightarrow>
         case parse_time_range E time_cell of Inl e \<Rightarrow> Inl e | Inr (start_time, end_time) \<Rightarrow>
         let dtstart = replace_time start start_time;
             dtend0 = replace_time start end_time
         in case (if datetime_le dtend0 dtstart
                  then (case timedelta_new 1 0 of
                          Inl e \<Rightarrow> Inl e
                        | Inr one_hour \<Rightarrow> datetime_add dtstart one_hour)
                  else Inr dtend0) of Inl e \<Rightarrow> Inl e | Inr dtend \<Rightarrow>
         let cal = add ''version'' (Text ''2.0'')
                     (add ''prodid'' (Text ''-//Excel to ICS Converter//EN'') Calendar);
             event = add ''dtend'' (DateTimeProp dtend)
                       (add ''dtstart'' (DateTimeProp dtstart)
                         (add ''summary'' (Text title) Event));
             event = (if venue \<noteq> [] then add ''location'' (Text venue) event else event);
             event = add ''x-apple-travel-duration'' (Text ''PT0M'')
                       (add ''x-apple-travel-advisory-behavior'' (Text ''AUTOMATIC'')
                         (add ''transp'' (Text ''OPAQUE'')
                           (add ''description'' (Text (row_description row)) event)))
         in case timedelta_new 0 (- \<bar>alert_minutes\<bar>) of Inl e \<Rightarrow> Inl e | Inr trigger \<Rightarrow>
         let alert = add ''x-apple-default-alarm'' (BoolProp True)
                       (add ''x-apple-local-default-alarm'' (BoolProp True)
                         (add ''trigger'' (DurationProp trigger)
                           (add ''description'' (Text ''Leave now to arrive on time.'')
                             (add ''action'' (Text ''DISPLAY'') Alarm))))
         in Inr (add_component (add_component alert event) cal))"

text \<open>Reading a calendar back: its events, the alarms of an event, a property by name.\<close>

definition events_of :: "component \<Rightarrow> component list" where
  "events_of cal = filter (\<lambda>c. comp_name c = ''VEVENT'') (subcomponents cal)"


definition prop_of :: "component \<Rightarrow> string \<Rightarrow> pvalue option" where
  "prop_of c name = map_of (properties c) name"

section \<open>The loader and the main loop\<close>

definition REQUIRED_COLUMNS :: "string set" where
  "REQUIRED_COLUMNS = {''title'', ''date'', ''time'', ''venue''}"

text \<open>A data frame: the column labels and the rows of cells, one cell per column.\<close>

record dataframe =
  columns :: "string list"
  cells :: "cell list list"

definition normalize_columns :: "dataframe \<Rightarrow> error + dataframe" where
  "normalize_columns df =
     (let df' = df\<lparr>columns := map (\<lambda>col. lower (strip col)) (columns df)\<rparr>;
          missing = REQUIRED_COLUMNS - set (columns df')
      in if missing \<noteq> {}
         then Inl (ValueError
                (''Missing required columns: '' @ join '', '' (sorted_list_of_set missing)))
         else Inr df')"

text \<open>\<open>row.to_dict()\<close>: the cells of a row under the column labels, assigned in column
  order.\<close>

definition to_dict :: "string list \<Rightarrow> cell list \<Rightarrow> row" where
  "to_dict cols vs = foldl (\<lambda>d (k, v). dict_set k v d) [] (zip cols vs)"

text \<open>
  What the run leaves behind: the directories made, the files written (the path and the
  calendar object whose serialisation is the content) and the lines printed, each in
  order.
\<close>

record world =
  dirs :: "string list"
  files :: "(string \<times> component) list"
  printed :: "string list"

record args =
  output_dir :: string
  alert_minutes :: int

text \<open>
  \<open>row.get(key, default)\<close> on the row as \<open>df.iterrows()\<close> gives it, a Series named by
  the label of the row and labelled by the columns: the default when no column has the
  label, the cell when one column has it, and the Series of the cells under the label
  when several columns have it, a value that is neither a datetime nor a string.
\<close>

definition series_get :: "env \<Rightarrow> int \<Rightarrow> string list \<Rightarrow> cell list \<Rightarrow> string \<Rightarrow> cell \<Rightarrow> cell" where
  "series_get E idx cols vs key dflt =
     (case filter (\<lambda>kv. fst kv = key) (zip cols vs) of
        [] \<Rightarrow> dflt
      | [kv] \<Rightarrow> snd kv
      | kv # kv' # kvs \<Rightarrow> Other (series_text E idx (kv # kv' # kvs)))"

text \<open>The loop over \<open>df.iterrows()\<close>: \<open>idx\<close> is the label of the row, counted from 0. An
  exception ends the loop and leaves what was written so far.\<close>

fun write_rows ::
  "env \<Rightarrow> timezone \<Rightarrow> args \<Rightarrow> string list \<Rightarrow> int \<Rightarrow> cell list list \<Rightarrow> world
   \<Rightarrow> (error + unit) \<times> world" where
  "write_rows E tz a cols idx [] w = (Inr (), w)"
| "write_rows E tz a cols idx (r # rs) w =
     (let row = to_dict cols r
      in case build_event E row tz (alert_minutes a) of
           Inl e \<Rightarrow> (Inl e, w)
         | Inr cal \<Rightarrow>
             let filename =
                   safe_filename (str_cell (series_get E idx cols r ''title'' (Str ''event'')))
                     (idx + 1);
                 output_path = output_dir a @ ''/'' @ filename;
                 w' = w\<lparr>files := files w @ [(output_path, cal)],
                        printed := printed w @ [''Wrote '' @ output_path]\<rparr>
             in write_rows E tz a cols (idx + 1) rs w')"

text \<open>\<open>main\<close>, from the data frame that \<open>read_excel\<close> returned and the zone that
  \<open>timezone(args.timezone)\<close> returned.\<close>

definition main :: "env \<Rightarrow> timezone \<Rightarrow> args \<Rightarrow> dataframe \<Rightarrow> world \<Rightarrow> (error + unit) \<times> world" where
  "main E tz a df0 w =
     (case normalize_columns df0 of
        Inl e \<Rightarrow> (Inl e, w)
      | Inr df \<Rightarrow>
          write_rows E tz a (columns df) 0 (cells df) (w\<lparr>dirs := dirs w @ [output_dir a]\<rparr>))"

section \<open>Reading results, and a parser to run the model on\<close>

text \<open>The start and the end of the single event of a calendar, and the same for the
  result of \<open>build_event\<close>.\<close>

definition event_datetime :: "component \<Rightarrow> string \<Rightarrow> datetime option" where
  "event_datetime cal name =
     (case events_of cal of
        [ev] \<Rightarrow> (case prop_of ev name of Some (DateTimeProp d) \<Rightarrow> Some d | _ \<Rightarrow> None)
      | _ \<Rightarrow> None)"

definition event_text :: "component \<Rightarrow> string \<Rightarrow> string option" where
  "event_text cal name =
     (case events_of cal of
        [ev] \<Rightarrow> (case prop_of ev name of Some (Text s) \<Rightarrow> Some s | _ \<Rightarrow> None)
      | _ \<Rightarrow> None)"

definition result_datetime :: "error + component \<Rightarrow> string \<Rightarrow> datetime option" where
  "result_datetime r name = (case r of Inl e \<Rightarrow> None | Inr cal \<Rightarrow> event_datetime cal name)"


text \<open>\<open>s.split(sep)\<close> for a separator of one character, \<open>s.lstrip()\<close> and \<open>s.rstrip()\<close>.\<close>

fun split_on :: "char \<Rightarrow> string \<Rightarrow> string list" where
  "split_on sep [] = [[]]"
| "split_on sep (c # cs) =
     (if c = sep then [] # split_on sep cs
      else (case split_on sep cs of [] \<Rightarrow> [[c]] | p # ps \<Rightarrow> (c # p) # ps))"

definition lstrip :: "string \<Rightarrow> string" where
  "lstrip s = dropWhile isspace s"

definition rstrip :: "string \<Rightarrow> string" where
  "rstrip s = rev (dropWhile isspace (rev s))"

text \<open>
  A parser to run the model on. On a plain 24-hour clock text, \<open>H:MM\<close> or \<open>H:MM:SS\<close>,
  the library's parser puts the hour, the minute and the second it reads into the
  default and keeps the default's date; \<open>clock_parser\<close> does this, and rejects every
  other text (the library reads many more).
\<close>

definition digit_of :: "char \<Rightarrow> nat option" where
  "digit_of c =
     (let n = (of_char c :: nat) in if 48 \<le> n \<and> n \<le> 57 then Some (n - 48) else None)"

definition clock_field :: "string \<Rightarrow> nat option" where
  "clock_field s =
     (case map digit_of s of
        [Some a] \<Rightarrow> Some a
      | [Some a, Some b] \<Rightarrow> Some (10 * a + b)
      | _ \<Rightarrow> None)"

definition clock_parser :: "datetime \<Rightarrow> string \<Rightarrow> error + datetime" where
  "clock_parser dflt s =
     (case map clock_field (split_on (CHR '':'') s) of
        [Some h, Some m] \<Rightarrow>
          if h < 24 \<and> m < 60 then Inr (dflt\<lparr>hour := h, minute := m\<rparr>)
          else Inl (ParserError s)
      | [Some h, Some m, Some sec] \<Rightarrow>
          if h < 24 \<and> m < 60 \<and> sec < 60 then Inr (dflt\<lparr>hour := h, minute := m, second := sec\<rparr>)
          else Inl (ParserError s)
      | _ \<Rightarrow> Inl (ParserError s))"

text \<open>No row of the runs below has two cells under one label, so the text of a Series is
  never asked for in them; their environments carry the empty text in its place.\<close>

definition no_series_text :: "int \<Rightarrow> (string \<times> cell) list \<Rightarrow> string" where
  "no_series_text name kvs = []"

text \<open>A run on 2024-01-05 at 08:30 and a run on the next day, both with \<open>clock_parser\<close>;
  a naive date cell for 2024-03-01.\<close>

definition env_jan5 :: env where
  "env_jan5 =
     \<lparr>parser = clock_parser,
      now = \<lparr>ordinal = 738890, hour = 8, minute = 30, second = 12, microsecond = 500,
             tzinfo = None\<rparr>,
      series_text = no_series_text\<rparr>"

definition env_jan6 :: env where
  "env_jan6 =
     \<lparr>parser = clock_parser,
      now = \<lparr>ordinal = 738891, hour = 8, minute = 30, second = 12, microsecond = 500,
             tzinfo = None\<rparr>,
      series_text = no_series_text\<rparr>"

definition march1 :: datetime where
  "march1 = \<lparr>ordinal = 738946, hour = 0, minute = 0, second = 0, microsecond = 0, tzinfo = None\<rparr>"

text \<open>
  The names the specification asks the loader's error to carry: the required names that
  are absent from the normalised header, in alphabetical order.
\<close>

definition normalized :: "string list \<Rightarrow> string list" where
  "normalized cols = map (\<lambda>col. lower (strip col)) cols"

definition missing_sorted :: "string list \<Rightarrow> string list" where
  "missing_sorted cols =
     filter (\<lambda>c. c \<notin> set (normalized cols)) [''date'', ''time'', ''title'', ''venue'']"

definition empty_world :: world where
  "empty_world = \<lparr>dirs = [], files = [], printed = []\<rparr>"

text \<open>The two parts the specification asks of the time cell: the text before the first
  hyphen without the blanks at its end, and the text after it without the blanks at its
  start.\<close>

definition before_hyphen :: "string \<Rightarrow> string" where
  "before_hyphen s = rstrip (takeWhile (\<lambda>c. c \<noteq> CHR ''-'') s)"

definition after_hyphen :: "string \<Rightarrow> string" where
  "after_hyphen s = lstrip (tl (dropWhile (\<lambda>c. c \<noteq> CHR ''-'') s))"



text \<open>The calendar that the second half of \<open>build_event\<close> builds from the values computed
  in the first half.\<close>

definition event_calendar ::
  "string \<Rightarrow> string \<Rightarrow> datetime \<Rightarrow> datetime \<Rightarrow> string \<Rightarrow> timedelta \<Rightarrow> component" where
  "event_calendar title venue dtstart dtend description trigger =
     Component ''VCALENDAR''
       [(''prodid'', Text ''-//Excel to ICS Converter//EN''), (''version'', Text ''2.0'')]
       [Component ''VEVENT''
          ([(''summary'', Text title), (''dtstart'', DateTimeProp dtstart),
            (''dtend'', DateTimeProp dtend)]
           @ (if venue \<noteq> [] then [(''location'', Text venue)] else [])
           @ [(''description'', Text description), (''transp'', Text ''OPAQUE''),
              (''x-apple-travel-advisory-behavior'', Text ''AUTOMATIC''),
              (''x-apple-travel-duration'', Text ''PT0M'')])
          [Component ''VALARM''
             [(''action'', Text ''DISPLAY''),
              (''description'', Text ''Leave now to arrive on time.''),
              (''trigger'', DurationProp trigger),
              (''x-apple-local-default-alarm'', BoolProp True),
              (''x-apple-default-alarm'', BoolProp True)]
             []]]"

text \<open>The end that lines 96 to 98 compute from the start and the candidate end.\<close>

definition end_after :: "datetime \<Rightarrow> datetime \<Rightarrow> error + datetime" where
  "end_after dtstart dtend0 =
     (if datetime_le dtend0 dtstart
      then (case timedelta_new 1 0 of
              Inl e \<Rightarrow> Inl e
            | Inr one_hour \<Rightarrow> datetime_add dtstart one_hour)
      else Inr dtend0)"

text \<open>The title and the venue that the first two lines of \<open>build_event\<close> compute.\<close>

definition row_title :: "row \<Rightarrow> string" where
  "row_title row =
     (let t = strip (str_cell (row_get row ''title'' (Str ''Event'')))
      in if t = [] then ''Event'' else t)"

definition row_venue :: "row \<Rightarrow> string" where
  "row_venue row = strip (str_cell (row_get row ''venue'' (Str [])))"



text \<open>More inputs to run the model on: a time range with seconds, a row whose date cell
  is a clock text, a frame whose only row has a blank title, the default arguments, a
  second clock reading on 2024-01-05, and an aware datetime at the first instant of the
  range of dates, five hours east of UTC.\<close>

definition row_seconds :: row where
  "row_seconds =
     [(''title'', Str ''Launch''), (''date'', DateTime march1),
      (''time'', Str ''9:00:30 - 10:00:45''), (''venue'', Str ''Room 1'')]"

definition row_clock_date :: row where
  "row_clock_date =
     [(''title'', Str ''Standup''), (''date'', Str ''12:00''),
      (''time'', Str ''9:00 - 10:00''), (''venue'', Str [])]"

definition frame_blank :: dataframe where
  "frame_blank =
     \<lparr>columns = [''title'', ''date'', ''time'', ''venue''],
      cells = [[Str ''  '', DateTime march1, Str ''9:00 - 10:00'', Str ''Room 1'']]\<rparr>"

definition args_demo :: args where
  "args_demo = \<lparr>output_dir = ''ics_output'', alert_minutes = 30\<rparr>"

definition env_jan5_late :: env where
  "env_jan5_late =
     \<lparr>parser = clock_parser,
      now = \<lparr>ordinal = 738890, hour = 17, minute = 45, second = 0, microsecond = 0,
             tzinfo = None\<rparr>,
      series_text = no_series_text\<rparr>"

definition year1_east :: datetime where
  "year1_east =
     \<lparr>ordinal = 1, hour = 0, minute = 0, second = 0, microsecond = 0,
      tzinfo = Some \<lparr>tzname = ''UTC+05:00'', utcoffset = 18000\<rparr>\<rparr>"

text \<open>The two steps of \<open>parse_datetime\<close> as the specification names them: the value read
  as a datetime (used as it is, or parsed from its text), and the datetime brought into
  the zone (localised when naive, converted when aware).\<close>

definition read_value :: "env \<Rightarrow> cell \<Rightarrow> error + datetime" where
  "read_value E v = (case v of DateTime d \<Rightarrow> Inr d | _ \<Rightarrow> date_parser_parse E (str_cell v))"

definition to_zone :: "timezone \<Rightarrow> datetime \<Rightarrow> error + datetime" where
  "to_zone tz d = (case tzinfo d of None \<Rightarrow> localize tz d | Some _ \<Rightarrow> astimezone tz d)"

definition one_hour :: timedelta where
  "one_hour = \<lparr>days = 0, seconds = 3600, microseconds = 0\<rparr>"

section \<open>Properties of the file name\<close>

lemma blocks_Cons:
  "blocks p (x # xs) =
     (x # takeWhile (\<lambda>y. p y = p x) xs) # blocks p (dropWhile (\<lambda>y. p y = p x) xs)"
proof (induction xs arbitrary: x)
  case Nil
  then show ?case by simp
next
  case (Cons a xs)
  show ?case
  proof (cases "p a = p x")
    case True
    then show ?thesis
      using Cons.IH [of a] Cons.IH [of x] by (simp split: list.splits)
  next
    case False
    then show ?thesis
      using Cons.IH [of a] by (auto split: list.splits)
  qed
qed

text \<open>The blocks are a partition of the text into non-empty pieces, each of one kind.\<close>

lemma blocks_concat: "concat (blocks p xs) = xs"
  by (induction xs) (auto split: list.splits)

lemma blocks_uniform:
  "b \<in> set (blocks p xs) \<Longrightarrow> b \<noteq> [] \<and> (\<forall>y \<in> set b. p y = p (hd b))"
proof (induction xs arbitrary: b rule: length_induct)
  case (1 xs)
  show ?case
  proof (cases xs)
    case Nil
    with 1 show ?thesis by simp
  next
    case (Cons x xs')
    have short: "length (dropWhile (\<lambda>y. p y = p x) xs') < length xs"
      using Cons by (simp add: length_dropWhile_le less_Suc_eq_le)
    from 1(2) Cons
    consider "b = x # takeWhile (\<lambda>y. p y = p x) xs'"
      | "b \<in> set (blocks p (dropWhile (\<lambda>y. p y = p x) xs'))"
      by (auto simp: blocks_Cons simp del: blocks.simps)
    then show ?thesis
    proof cases
      case 1
      then show ?thesis by (auto dest: set_takeWhileD)
    next
      case 2
      with "1.IH" short show ?thesis by blast
    qed
  qed
qed

lemma re_sub_unsafe_prefix:
  "re_sub_unsafe xs = takeWhile name_char xs @ re_sub_unsafe (dropWhile name_char xs)"
  by (induction xs) auto

lemma spec_collapse_Nil: "spec_collapse [] = []"
  by (simp add: spec_collapse_def)

lemma spec_collapse_Cons:
  "spec_collapse (c # cs) =
     (if name_char c then c # takeWhile name_char cs @ spec_collapse (dropWhile name_char cs)
      else CHR ''_'' # spec_collapse (dropWhile (\<lambda>x. \<not> name_char x) cs))"
proof (cases "name_char c")
  case True
  then have "(\<lambda>y. name_char y = name_char c) = name_char" by auto
  with True show ?thesis
    unfolding spec_collapse_def by (simp add: blocks_Cons del: blocks.simps)
next
  case False
  then have "(\<lambda>y. name_char y = name_char c) = (\<lambda>x. \<not> name_char x)" by auto
  with False show ?thesis
    unfolding spec_collapse_def by (simp add: blocks_Cons del: blocks.simps)
qed

lemma spec_collapse_prefix:
  "spec_collapse xs = takeWhile name_char xs @ spec_collapse (dropWhile name_char xs)"
  by (cases xs) (simp_all add: spec_collapse_Cons)

lemma re_sub_unsafe_collapse: "re_sub_unsafe s = spec_collapse s"
proof (induction s rule: re_sub_unsafe.induct)
  case 1
  then show ?case by (simp add: spec_collapse_Nil)
next
  case (2 c cs)
  show ?case
  proof (cases "name_char c")
    case True
    then have "re_sub_unsafe (c # cs) = c # spec_collapse cs"
      using 2 by simp
    also have "\<dots> = c # takeWhile name_char cs @ spec_collapse (dropWhile name_char cs)"
      using spec_collapse_prefix [of cs] by simp
    finally show ?thesis
      using True by (simp add: spec_collapse_Cons)
  next
    case False
    then show ?thesis using 2 by (simp add: spec_collapse_Cons)
  qed
qed

lemma rev_dropWhile_rev:
  "rev (dropWhile p (rev t)) = take (length t - length (takeWhile p (rev t))) t"
proof -
  have "rev t = takeWhile p (rev t) @ dropWhile p (rev t)" by simp
  then have "t = rev (dropWhile p (rev t)) @ rev (takeWhile p (rev t))"
    by (metis rev_append rev_rev_ident)
  then show ?thesis
    by (metis append_eq_conv_conj length_rev length_append add_diff_cancel_right')
qed

lemma strip_chars_trim: "strip_chars ''_'' s = spec_trim s"
  unfolding strip_chars_def strip_with_def spec_trim_def Let_def
  by (simp add: rev_dropWhile_rev)

lemma safe_filename_example: "safe_filename ''Team Sync: Q1!!'' 3 = ''Team_Sync_Q1_3.ics''"
  by code_simp

text \<open>
  C6. For every title and row index, the file name that \<open>safe_filename\<close> computes is the
  one the specification describes: every run of characters outside \<open>[A-Za-z0-9_-]\<close>
  replaced by one underscore, the underscores at both ends trimmed, \<open>event\<close> put for an
  empty result, and \<open>_{index}.ics\<close> appended. The title \<open>Team Sync: Q1!!\<close> at row index 3
  gives \<open>Team_Sync_Q1_3.ics\<close>.
\<close>

theorem safe_filename_refines_spec:
  "safe_filename title row_index = spec_filename title row_index
   \<and> safe_filename ''Team Sync: Q1!!'' 3 = ''Team_Sync_Q1_3.ics''"
proof -
  have "safe_filename title row_index = spec_filename title row_index"
    by (simp add: safe_filename_def spec_filename_def Let_def re_sub_unsafe_collapse
        strip_chars_trim)
  then show ?thesis
    using safe_filename_example by (rule conjI)
qed

theorem safe_filename_refines_spec_witness:
  "safe_filename ''a b'' 12 = spec_filename ''a b'' 12 \<and> spec_filename ''a b'' 12 = ''a_b_12.ics''"
proof -
  have "spec_filename ''a b'' 12 = ''a_b_12.ics''" by code_simp
  moreover have "safe_filename ''a b'' 12 = spec_filename ''a b'' 12"
    using safe_filename_refines_spec [of "''a b''" 12] by (rule conjunct1)
  ultimately show ?thesis by (rule conjI [rotated])
qed

section \<open>Properties of the loader\<close>

lemma required_minus_sorted:
  "sorted_list_of_set (REQUIRED_COLUMNS - S) =
     filter (\<lambda>c. c \<notin> S) [''date'', ''time'', ''title'', ''venue'']"
proof -
  let ?xs = "filter (\<lambda>c. c \<notin> S) [''date'', ''time'', ''title'', ''venue'']"
  have srt: "sorted [''date'', ''time'', ''title'', ''venue'']" by simp
  have "sorted ?xs" using srt by (rule sorted_wrt_filter)
  moreover have "distinct ?xs" by simp
  moreover have "set ?xs = REQUIRED_COLUMNS - S"
    by (auto simp: REQUIRED_COLUMNS_def)
  ultimately show ?thesis
    using sorted_list_of_set.idem_if_sorted_distinct [of ?xs] by simp
qed

lemma missing_sorted_set:
  "set (missing_sorted cols) = REQUIRED_COLUMNS - set (normalized cols)"
  by (auto simp: missing_sorted_def REQUIRED_COLUMNS_def)

lemma missing_sorted_sorted: "sorted (missing_sorted cols) \<and> distinct (missing_sorted cols)"
proof -
  have srt: "sorted [''date'', ''time'', ''title'', ''venue'']" by simp
  have "sorted (missing_sorted cols)"
    unfolding missing_sorted_def using srt by (rule sorted_wrt_filter)
  moreover have "distinct (missing_sorted cols)"
    by (simp add: missing_sorted_def)
  ultimately show ?thesis ..
qed

lemma normalize_columns_eq:
  "normalize_columns df =
     (if missing_sorted (columns df) \<noteq> []
      then Inl (ValueError
             (''Missing required columns: '' @ join '', '' (missing_sorted (columns df))))
      else Inr (df\<lparr>columns := normalized (columns df)\<rparr>))"
proof -
  have "REQUIRED_COLUMNS - set (normalized (columns df)) \<noteq> {}
        \<longleftrightarrow> missing_sorted (columns df) \<noteq> []"
    using missing_sorted_set [of "columns df"] by (metis set_empty)
  moreover have "sorted_list_of_set (REQUIRED_COLUMNS - set (normalized (columns df)))
        = missing_sorted (columns df)"
    by (simp add: required_minus_sorted missing_sorted_def)
  ultimately show ?thesis
    by (simp add: normalize_columns_def Let_def normalized_def [symmetric])
qed

text \<open>
  C4. When a required column is absent from the normalised header (each label trimmed
  and lowercased), \<open>normalize_columns\<close> fails with one error that names the absent
  columns in alphabetical order, joined by a comma and a blank, and \<open>main\<close> ends with
  that error before it makes the directory, builds an event, writes a file or prints a
  line. When the four are present, \<open>normalize_columns\<close> returns the frame with the
  normalised header.
\<close>

theorem normalize_columns_required:
  "(missing_sorted (columns df) \<noteq> [] \<longrightarrow>
      normalize_columns df =
        Inl (ValueError
          (''Missing required columns: '' @ join '', '' (missing_sorted (columns df))))
      \<and> main E tz a df w =
        (Inl (ValueError
           (''Missing required columns: '' @ join '', '' (missing_sorted (columns df)))), w))
   \<and> (REQUIRED_COLUMNS \<subseteq> set (normalized (columns df)) \<longrightarrow>
      normalize_columns df = Inr (df\<lparr>columns := normalized (columns df)\<rparr>))
   \<and> set (missing_sorted (columns df)) = REQUIRED_COLUMNS - set (normalized (columns df))
   \<and> sorted (missing_sorted (columns df)) \<and> distinct (missing_sorted (columns df))"
proof -
  have present: "missing_sorted (columns df) = []"
    if "REQUIRED_COLUMNS \<subseteq> set (normalized (columns df))"
  proof -
    have "set (missing_sorted (columns df)) = {}"
      using that missing_sorted_set [of "columns df"] by auto
    then show ?thesis by simp
  qed
  show ?thesis
    using present missing_sorted_set [of "columns df"] missing_sorted_sorted [of "columns df"]
    by (simp add: normalize_columns_eq main_def)
qed

lemma normalized_example:
  "normalized ['' Title'', ''DATE'', ''time '', ''Venue'', ''Notes'']
     = [''title'', ''date'', ''time'', ''venue'', ''notes'']"
  "normalized ['' Title'', ''time '', ''Venu''] = [''title'', ''time'', ''venu'']"
  by code_simp+

theorem normalize_columns_required_witness:
  "missing_sorted ['' Title'', ''time '', ''Venu''] \<noteq> []
   \<and> main env_jan5 utc \<lparr>output_dir = ''ics_output'', alert_minutes = 30\<rparr>
        \<lparr>columns = ['' Title'', ''time '', ''Venu''], cells = [[Str ''a'', Str ''9:00 - 10:00'', Str ''b'']]\<rparr>
        empty_world
      = (Inl (ValueError ''Missing required columns: date, venue''), empty_world)
   \<and> REQUIRED_COLUMNS \<subseteq> set (normalized ['' Title'', ''DATE'', ''time '', ''Venue'', ''Notes''])
   \<and> normalize_columns \<lparr>columns = ['' Title'', ''DATE'', ''time '', ''Venue'', ''Notes''], cells = []\<rparr>
      = Inr \<lparr>columns = [''title'', ''date'', ''time'', ''venue'', ''notes''], cells = []\<rparr>"
proof -
  have m: "missing_sorted ['' Title'', ''time '', ''Venu''] = [''date'', ''venue'']"
    by (simp add: missing_sorted_def normalized_example)
  have p: "REQUIRED_COLUMNS \<subseteq> set (normalized ['' Title'', ''DATE'', ''time '', ''Venue'', ''Notes''])"
    by (simp add: normalized_example REQUIRED_COLUMNS_def)
  show ?thesis
    using m p
      normalize_columns_required [of "\<lparr>columns = ['' Title'', ''time '', ''Venu''], cells = [[Str ''a'', Str ''9:00 - 10:00'', Str ''b'']]\<rparr>"
        env_jan5 utc "\<lparr>output_dir = ''ics_output'', alert_minutes = 30\<rparr>" empty_world]
      normalize_columns_required [of "\<lparr>columns = ['' Title'', ''DATE'', ''time '', ''Venue'', ''Notes''], cells = []\<rparr>"]
    by (simp add: normalized_example)
qed

section \<open>Properties of the time range\<close>

lemma not_isspace_hyphen: "\<not> isspace (CHR ''-'')"
  by (simp add: isspace_def)

lemma rstrip_Cons:
  "rstrip (c # t) = (if isspace c \<and> (\<forall>x \<in> set t. isspace x) then [] else c # rstrip t)"
  by (auto simp: rstrip_def dropWhile_append)

lemma rstrip_blank: "(\<forall>x \<in> set t. isspace x) \<Longrightarrow> rstrip t = []"
  by (simp add: rstrip_def)

lemma match_sep_blanks:
  assumes "\<forall>x \<in> set ws. isspace x"
  shows "match_sep (ws @ CHR ''-'' # rest) = Some (dropWhile isspace rest)"
  using assms by (simp add: match_sep_def dropWhile_append not_isspace_hyphen)

lemma match_sep_SomeD:
  assumes "match_sep s = Some after"
  shows "\<exists>ws rest. s = ws @ CHR ''-'' # rest \<and> (\<forall>x \<in> set ws. isspace x)
           \<and> after = dropWhile isspace rest"
proof -
  from assms obtain rest where d: "dropWhile isspace s = CHR ''-'' # rest"
    and a: "after = dropWhile isspace rest"
    by (auto simp: match_sep_def split: list.splits if_splits)
  have "s = takeWhile isspace s @ CHR ''-'' # rest"
    using d takeWhile_dropWhile_id [of isspace s] by simp
  moreover have "\<forall>x \<in> set (takeWhile isspace s). isspace x"
    by (auto dest: set_takeWhileD)
  ultimately show ?thesis using a by blast
qed

lemma search_sep_no_hyphen: "CHR ''-'' \<notin> set s \<Longrightarrow> search_sep s = None"
proof (induction s)
  case Nil
  then show ?case by simp
next
  case (Cons c cs)
  have "match_sep (c # cs) = None"
  proof (cases "match_sep (c # cs)")
    case None
    then show ?thesis .
  next
    case (Some after)
    from match_sep_SomeD [OF this] Cons.prems show ?thesis
      by (metis in_set_conv_decomp)
  qed
  with Cons show ?case by simp
qed

lemma search_sep_hyphen:
  "CHR ''-'' \<in> set s \<Longrightarrow> search_sep s = Some (before_hyphen s, after_hyphen s)"
proof (induction s)
  case Nil
  then show ?case by simp
next
  case (Cons c cs)
  let ?P = "\<lambda>c. c \<noteq> CHR ''-''"
  show ?case
  proof (cases "match_sep (c # cs)")
    case (Some after)
    from match_sep_SomeD [OF this] obtain ws rest where
      s: "c # cs = ws @ CHR ''-'' # rest" and ws: "\<forall>x \<in> set ws. isspace x"
      and a: "after = dropWhile isspace rest"
      by blast
    have wsP: "\<forall>x \<in> set ws. ?P x"
      using ws not_isspace_hyphen by auto
    have "takeWhile ?P (c # cs) = ws"
      unfolding s using wsP by (simp add: takeWhile_append2)
    moreover have "dropWhile ?P (c # cs) = CHR ''-'' # rest"
      unfolding s using wsP by (simp add: dropWhile_append2)
    ultimately have "before_hyphen (c # cs) = [] \<and> after_hyphen (c # cs) = after"
      using ws a by (simp add: before_hyphen_def after_hyphen_def rstrip_blank lstrip_def
          del: takeWhile.simps dropWhile.simps)
    with Some show ?thesis by simp
  next
    case None
    have c: "c \<noteq> CHR ''-''"
    proof
      assume "c = CHR ''-''"
      then have "match_sep (c # cs) = Some (dropWhile isspace cs)"
        using match_sep_blanks [of "[]" cs] by simp
      with None show False by simp
    qed
    with Cons.prems have in_cs: "CHR ''-'' \<in> set cs" by simp
    then have IH: "search_sep cs = Some (before_hyphen cs, after_hyphen cs)"
      by (rule Cons.IH)
    have not_blank: "\<not> (isspace c \<and> (\<forall>x \<in> set (takeWhile ?P cs). isspace x))"
    proof
      assume b: "isspace c \<and> (\<forall>x \<in> set (takeWhile ?P cs). isspace x)"
      from in_cs have ne: "dropWhile ?P cs \<noteq> []"
        by (auto simp: dropWhile_eq_Nil_conv)
      then have "\<not> ?P (hd (dropWhile ?P cs))"
        by (rule hd_dropWhile)
      with ne obtain rest where d: "dropWhile ?P cs = CHR ''-'' # rest"
        by (cases "dropWhile ?P cs") auto
      have "c # cs = (c # takeWhile ?P cs) @ CHR ''-'' # rest"
        using d takeWhile_dropWhile_id [of ?P cs] by simp
      moreover have "\<forall>x \<in> set (c # takeWhile ?P cs). isspace x"
        using b by simp
      ultimately have "match_sep (c # cs) = Some (dropWhile isspace rest)"
        using match_sep_blanks [of "c # takeWhile ?P cs" rest] by simp
      with None show False by simp
    qed
    have "before_hyphen (c # cs) = c # before_hyphen cs"
      using c not_blank by (simp add: before_hyphen_def rstrip_Cons)
    moreover have "after_hyphen (c # cs) = after_hyphen cs"
      using c by (simp add: after_hyphen_def)
    ultimately show ?thesis
      using None IH by simp
  qed
qed

lemma re_split_eq:
  "re_split s = (if CHR ''-'' \<in> set s then [before_hyphen s, after_hyphen s] else [s])"
  by (simp add: re_split_def search_sep_hyphen search_sep_no_hyphen)


text \<open>
  C5. \<open>parse_time_range\<close> splits the text of the time cell at its first hyphen, the
  blanks around the hyphen dropped; a text without a hyphen gives one part. It fails
  exactly when the split does not give two parts or the parser fails on one of the two
  parts, and otherwise it returns the times of day of the two parts, each parsed on its
  own.
\<close>

theorem parse_time_range_hyphen:
  "re_split (str_cell v) =
     (if CHR ''-'' \<in> set (str_cell v)
      then [before_hyphen (str_cell v), after_hyphen (str_cell v)] else [str_cell v])
   \<and> ((\<exists>e. parse_time_range E v = Inl e) \<longleftrightarrow>
        (length (re_split (str_cell v)) \<noteq> 2
         \<or> (\<exists>e. date_parser_parse E (before_hyphen (str_cell v)) = Inl e)
         \<or> (\<exists>e. date_parser_parse E (after_hyphen (str_cell v)) = Inl e)))
   \<and> (\<forall>d0 d1. length (re_split (str_cell v)) = 2
          \<longrightarrow> date_parser_parse E (before_hyphen (str_cell v)) = Inr d0
          \<longrightarrow> date_parser_parse E (after_hyphen (str_cell v)) = Inr d1
          \<longrightarrow> parse_time_range E v = Inr (time_of d0, time_of d1))"
proof (cases "CHR ''-'' \<in> set (str_cell v)")
  case True
  then show ?thesis
    by (auto simp: parse_time_range_def re_split_eq split: sum.splits)
next
  case False
  then show ?thesis
    by (simp add: parse_time_range_def re_split_eq)
qed

lemma split_on_clock:
  "split_on (CHR '':'') ''9:00'' = [''9'', ''00'']"
  "split_on (CHR '':'') ''10:00'' = [''10'', ''00'']"
  "split_on (CHR '':'') ''22:00'' = [''22'', ''00'']"
  "split_on (CHR '':'') ''1:00'' = [''1'', ''00'']"
  by simp_all

lemma clock_field_values:
  "clock_field ''9'' = Some 9" "clock_field ''00'' = Some 0" "clock_field ''10'' = Some 10"
  "clock_field ''22'' = Some 22" "clock_field ''1'' = Some 1"
  by (simp_all add: clock_field_def digit_of_def)

lemma clock_parser_values:
  "clock_parser d ''9:00'' = Inr (d\<lparr>hour := 9, minute := 0\<rparr>)"
  "clock_parser d ''10:00'' = Inr (d\<lparr>hour := 10, minute := 0\<rparr>)"
  "clock_parser d ''22:00'' = Inr (d\<lparr>hour := 22, minute := 0\<rparr>)"
  "clock_parser d ''1:00'' = Inr (d\<lparr>hour := 1, minute := 0\<rparr>)"
  by (simp_all add: clock_parser_def split_on_clock clock_field_values)

lemma hyphen_parts_9_10:
  "before_hyphen ''9:00 - 10:00'' = ''9:00''" "after_hyphen ''9:00 - 10:00'' = ''10:00''"
  by code_simp+

theorem parse_time_range_hyphen_witness:
  "length (re_split ''9:00 - 10:00'') = 2
   \<and> date_parser_parse env_jan5 ''9:00''
       = Inr \<lparr>ordinal = 738890, hour = 9, minute = 0, second = 0, microsecond = 0, tzinfo = None\<rparr>
   \<and> date_parser_parse env_jan5 ''10:00''
       = Inr \<lparr>ordinal = 738890, hour = 10, minute = 0, second = 0, microsecond = 0, tzinfo = None\<rparr>
   \<and> parse_time_range env_jan5 (Str ''9:00 - 10:00'')
       = Inr (\<lparr>t_hour = 9, t_minute = 0, t_second = 0, t_microsecond = 0\<rparr>,
              \<lparr>t_hour = 10, t_minute = 0, t_second = 0, t_microsecond = 0\<rparr>)
   \<and> length (re_split ''9:00AM10:00AM'') \<noteq> 2
   \<and> (\<exists>e. parse_time_range env_jan5 (Str ''9:00AM10:00AM'') = Inl e)"
proof -
  have p0: "date_parser_parse env_jan5 ''9:00''
       = Inr \<lparr>ordinal = 738890, hour = 9, minute = 0, second = 0, microsecond = 0, tzinfo = None\<rparr>"
    by (simp add: date_parser_parse_def env_jan5_def clock_parser_values)
  have p1: "date_parser_parse env_jan5 ''10:00''
       = Inr \<lparr>ordinal = 738890, hour = 10, minute = 0, second = 0, microsecond = 0, tzinfo = None\<rparr>"
    by (simp add: date_parser_parse_def env_jan5_def clock_parser_values)
  have l2: "length (re_split ''9:00 - 10:00'') = 2"
    by (simp add: re_split_eq)
  have l1: "length (re_split ''9:00AM10:00AM'') \<noteq> 2"
    by (simp add: re_split_eq)
  show ?thesis
    using p0 p1 l1 l2
      parse_time_range_hyphen [of "Str ''9:00 - 10:00''" env_jan5]
      parse_time_range_hyphen [of "Str ''9:00AM10:00AM''" env_jan5]
    by (simp add: hyphen_parts_9_10 time_of_def)
qed

section \<open>The shape of the result of \<open>build_event\<close>\<close>

lemma build_event_eq:
  "build_event E row tz a =
     (case row_item row ''date'' of Inl e \<Rightarrow> Inl e | Inr date_cell \<Rightarrow>
      case parse_datetime E date_cell tz of Inl e \<Rightarrow> Inl e | Inr start \<Rightarrow>
      case row_item row ''time'' of Inl e \<Rightarrow> Inl e | Inr time_cell \<Rightarrow>
      case parse_time_range E time_cell of Inl e \<Rightarrow> Inl e | Inr (start_time, end_time) \<Rightarrow>
      case end_after (replace_time start start_time) (replace_time start end_time) of
        Inl e \<Rightarrow> Inl e | Inr dtend \<Rightarrow>
      case timedelta_new 0 (- \<bar>a\<bar>) of Inl e \<Rightarrow> Inl e | Inr trigger \<Rightarrow>
        Inr (event_calendar (row_title row) (row_venue row) (replace_time start start_time)
               dtend (row_description row) trigger))"
  by (simp add: build_event_def end_after_def row_title_def row_venue_def event_calendar_def
      add_def add_component_def Calendar_def Event_def Alarm_def Let_def
      split: sum.splits prod.splits)

lemma build_event_InrD:
  assumes "build_event E row tz a = Inr cal"
  shows "\<exists>date_cell start time_cell start_time end_time dtend trigger.
           row_item row ''date'' = Inr date_cell
           \<and> parse_datetime E date_cell tz = Inr start
           \<and> row_item row ''time'' = Inr time_cell
           \<and> parse_time_range E time_cell = Inr (start_time, end_time)
           \<and> end_after (replace_time start start_time) (replace_time start end_time) = Inr dtend
           \<and> timedelta_new 0 (- \<bar>a\<bar>) = Inr trigger
           \<and> cal = event_calendar (row_title row) (row_venue row)
                     (replace_time start start_time) dtend (row_description row) trigger"
  using assms unfolding build_event_eq
  by (auto split: sum.splits prod.splits)

lemma event_calendar_events:
  "events_of (event_calendar t v ds de desc trg) = subcomponents (event_calendar t v ds de desc trg)"
  "length (events_of (event_calendar t v ds de desc trg)) = 1"
  by (simp_all add: event_calendar_def events_of_def)

lemma event_calendar_datetime:
  "event_datetime (event_calendar t v ds de desc trg) ''dtstart'' = Some ds"
  "event_datetime (event_calendar t v ds de desc trg) ''dtend'' = Some de"
  by (simp_all add: event_calendar_def event_datetime_def events_of_def prop_of_def)

lemma event_calendar_text:
  "event_text (event_calendar t v ds de desc trg) ''summary'' = Some t"
  "event_text (event_calendar t v ds de desc trg) ''description'' = Some desc"
  "event_text (event_calendar t v ds de desc trg) ''location'' = (if v = [] then None else Some v)"
  by (simp_all add: event_calendar_def event_text_def events_of_def prop_of_def)


section \<open>Running the model\<close>

lemma re_split_values:
  "re_split ''9:00 - 10:00'' = [''9:00'', ''10:00'']"
  "re_split ''22:00 - 1:00'' = [''22:00'', ''1:00'']"
  by code_simp+

lemma parse_time_range_values:
  "parse_time_range env_jan5 (Str ''9:00 - 10:00'')
     = Inr (\<lparr>t_hour = 9, t_minute = 0, t_second = 0, t_microsecond = 0\<rparr>,
            \<lparr>t_hour = 10, t_minute = 0, t_second = 0, t_microsecond = 0\<rparr>)"
  "parse_time_range env_jan5 (Str ''22:00 - 1:00'')
     = Inr (\<lparr>t_hour = 22, t_minute = 0, t_second = 0, t_microsecond = 0\<rparr>,
            \<lparr>t_hour = 1, t_minute = 0, t_second = 0, t_microsecond = 0\<rparr>)"
  by (simp_all add: parse_time_range_def re_split_values date_parser_parse_def env_jan5_def
      clock_parser_values time_of_def)

lemma parse_datetime_march1:
  "parse_datetime E (DateTime march1) utc
     = Inr \<lparr>ordinal = 738946, hour = 0, minute = 0, second = 0, microsecond = 0,
            tzinfo = Some utc_info\<rparr>"
  by (simp add: parse_datetime_def march1_def utc_def)

lemma strip_values:
  "strip ''Team Sync'' = ''Team Sync''" "strip ''Room 1'' = ''Room 1''"
  "strip ''Night shift'' = ''Night shift''" "strip [] = []"
  by code_simp+

lemma timedelta_new_values:
  "timedelta_new 1 0 = Inr \<lparr>days = 0, seconds = 3600, microseconds = 0\<rparr>"
  "timedelta_new 0 (- 30) = Inr \<lparr>days = - 1, seconds = 84600, microseconds = 0\<rparr>"
  "timedelta_new 0 (- 15) = Inr \<lparr>days = - 1, seconds = 85500, microseconds = 0\<rparr>"
  by (simp_all add: timedelta_new_def)







section \<open>Properties of the description\<close>








section \<open>Properties of the alarm\<close>






section \<open>Properties of the start and the end\<close>

lemma datetime_not_le: "\<not> datetime_le a b \<Longrightarrow> datetime_lt b a"
  unfolding datetime_le_def datetime_lt_def same_fields_def
  by (metis linorder_neqE_nat)

lemma datetime_le_not_lt: "datetime_le a b \<Longrightarrow> \<not> datetime_lt b a"
  unfolding datetime_le_def datetime_lt_def same_fields_def
  by (metis less_asym less_irrefl)

lemma datetime_add_one_hour_lt:
  assumes "datetime_add ds one_hour = Inr de" and "microsecond ds = 0"
  shows "datetime_lt ds de"
proof -
  define T where "T = int (hour ds) * 3600 + int (minute ds) * 60 + int (second ds)"
  define secs where "secs = T + 3600"
  have T0: "0 \<le> T" and Th: "int (hour ds) * 3600 \<le> T"
    by (simp_all add: T_def)
  from assms have de:
    "de = ds\<lparr>ordinal := nat (int (ordinal ds) + secs div 86400),
              hour := nat (secs mod 86400 div 3600),
              minute := nat (secs mod 86400 mod 3600 div 60),
              second := nat (secs mod 86400 mod 60), microsecond := 0\<rparr>"
    and range: "0 < int (ordinal ds) + secs div 86400"
    by (auto simp: datetime_add_def one_hour_def Let_def secs_def T_def split: if_splits)
  have secs0: "0 \<le> secs" using T0 by (simp add: secs_def)
  then have q0: "0 \<le> secs div 86400"
    by (simp add: pos_imp_zdiv_nonneg_iff)
  show ?thesis
  proof (cases "secs div 86400 = 0")
    case True
    have small: "secs mod 86400 = secs"
      using div_mult_mod_eq [of secs 86400] True by simp
    have "(int (hour ds) + 1) * 3600 \<le> secs"
      using Th by (simp add: secs_def algebra_simps)
    then have "(int (hour ds) + 1) * 3600 div 3600 \<le> secs div 3600"
      by (intro zdiv_mono1) auto
    then have "int (hour ds) + 1 \<le> secs div 3600"
      by simp
    then have "hour ds < nat (secs div 3600)"
      by linarith
    with True small show ?thesis
      by (simp add: de datetime_lt_def)
  next
    case False
    with q0 have "0 < secs div 86400" by linarith
    then have "ordinal ds < nat (int (ordinal ds) + secs div 86400)"
      by linarith
    then show ?thesis
      by (simp add: de datetime_lt_def)
  qed
qed


lemma timedelta_new_one_hour: "timedelta_new 1 0 = Inr one_hour"
  by (simp add: timedelta_new_def one_hour_def)

lemma end_after_Inr:
  assumes "end_after ds de0 = Inr de" and "microsecond ds = 0"
  shows "datetime_lt ds de \<and> (datetime_lt ds de0 \<longrightarrow> de = de0)
         \<and> (\<not> datetime_lt ds de0 \<longrightarrow> datetime_add ds one_hour = Inr de)"
proof (cases "datetime_le de0 ds")
  case True
  with assms(1) have add: "datetime_add ds one_hour = Inr de"
    by (simp add: end_after_def timedelta_new_one_hour)
  from add assms(2) have "datetime_lt ds de"
    by (rule datetime_add_one_hour_lt)
  moreover from True have "\<not> datetime_lt ds de0"
    by (rule datetime_le_not_lt)
  ultimately show ?thesis using add by simp
next
  case False
  with assms(1) have "de = de0"
    by (simp add: end_after_def)
  moreover from False have "datetime_lt ds de0"
    by (rule datetime_not_le)
  ultimately show ?thesis by simp
qed



lemma replace_time_microsecond: "microsecond (replace_time start t) = 0"
  by (simp add: replace_time_def)



section \<open>Properties of the composition of date and time\<close>

lemma split_on_seconds:
  "split_on (CHR '':'') ''9:00:30'' = [''9'', ''00'', ''30'']"
  "split_on (CHR '':'') ''10:00:45'' = [''10'', ''00'', ''45'']"
  by simp_all

lemma clock_field_seconds:
  "clock_field ''30'' = Some 30" "clock_field ''45'' = Some 45"
  by (simp_all add: clock_field_def digit_of_def)

lemma clock_parser_seconds:
  "clock_parser d ''9:00:30'' = Inr (d\<lparr>hour := 9, minute := 0, second := 30\<rparr>)"
  "clock_parser d ''10:00:45'' = Inr (d\<lparr>hour := 10, minute := 0, second := 45\<rparr>)"
  by (simp_all add: clock_parser_def split_on_seconds clock_field_values clock_field_seconds)

lemma re_split_seconds: "re_split ''9:00:30 - 10:00:45'' = [''9:00:30'', ''10:00:45'']"
  by code_simp

lemma parse_time_range_seconds:
  "parse_time_range env_jan5 (Str ''9:00:30 - 10:00:45'')
     = Inr (\<lparr>t_hour = 9, t_minute = 0, t_second = 30, t_microsecond = 0\<rparr>,
            \<lparr>t_hour = 10, t_minute = 0, t_second = 45, t_microsecond = 0\<rparr>)"
  by (simp add: parse_time_range_def re_split_seconds date_parser_parse_def env_jan5_def
      clock_parser_seconds time_of_def)

lemma strip_launch: "strip ''Launch'' = ''Launch''"
  by code_simp

lemma build_event_row_seconds:
  "build_event env_jan5 row_seconds utc 30 =
     Inr (event_calendar ''Launch'' ''Room 1''
            \<lparr>ordinal = 738946, hour = 9, minute = 0, second = 30, microsecond = 0,
               tzinfo = Some utc_info\<rparr>
            \<lparr>ordinal = 738946, hour = 10, minute = 0, second = 45, microsecond = 0,
               tzinfo = Some utc_info\<rparr>
            (row_description row_seconds)
            \<lparr>days = - 1, seconds = 84600, microseconds = 0\<rparr>)"
proof -
  have "row_item row_seconds ''date'' = Inr (DateTime march1)"
    "row_item row_seconds ''time'' = Inr (Str ''9:00:30 - 10:00:45'')"
    by (simp_all add: row_item_def row_seconds_def)
  moreover have "row_title row_seconds = ''Launch''" "row_venue row_seconds = ''Room 1''"
    by (simp_all add: row_title_def row_venue_def row_get_def row_seconds_def strip_values
        strip_launch)
  ultimately show ?thesis
    by (simp add: build_event_eq parse_datetime_march1 parse_time_range_seconds
        replace_time_def end_after_def datetime_le_def datetime_lt_def same_fields_def
        timedelta_new_values)
qed

text \<open>
  C2, as stated, fails: the seconds of the start and of the end are the seconds of the
  parsed times of day, not zero. The time cell \<open>9:00:30 - 10:00:45\<close> gives a start with
  second 30 and an end with second 45.
\<close>

theorem build_event_seconds_counterexample:
  "map_option second (result_datetime (build_event env_jan5 row_seconds utc 30) ''dtstart'')
     = Some 30
   \<and> map_option second (result_datetime (build_event env_jan5 row_seconds utc 30) ''dtend'')
     = Some 45"
  by (simp add: build_event_row_seconds result_datetime_def event_calendar_datetime)

text \<open>
  C2, amended. For every row that \<open>build_event\<close> transforms, the start is the datetime
  that \<open>parse_datetime\<close> returned for the date cell (which is in the configured zone)
  with its hour, minute and second replaced by those of the start time of day and its
  microsecond set to 0: the seconds are kept. The end is the same combination with the
  end time of day when that is strictly after the start, and the start plus one hour
  otherwise.
\<close>

theorem build_event_composition:
  assumes "build_event E row tz a = Inr cal"
  shows "\<exists>date_cell start time_cell start_time end_time dtstart dtend0.
           row_item row ''date'' = Inr date_cell
           \<and> parse_datetime E date_cell tz = Inr start
           \<and> row_item row ''time'' = Inr time_cell
           \<and> parse_time_range E time_cell = Inr (start_time, end_time)
           \<and> dtstart = start\<lparr>hour := t_hour start_time, minute := t_minute start_time,
                               second := t_second start_time, microsecond := 0\<rparr>
           \<and> dtend0 = start\<lparr>hour := t_hour end_time, minute := t_minute end_time,
                              second := t_second end_time, microsecond := 0\<rparr>
           \<and> event_datetime cal ''dtstart'' = Some dtstart
           \<and> (datetime_lt dtstart dtend0 \<longrightarrow> event_datetime cal ''dtend'' = Some dtend0)
           \<and> (\<not> datetime_lt dtstart dtend0 \<longrightarrow>
                 (\<exists>dtend. event_datetime cal ''dtend'' = Some dtend
                          \<and> datetime_add dtstart one_hour = Inr dtend))"
proof -
  from build_event_InrD [OF assms] obtain date_cell start time_cell start_time end_time
    dtend trigger where
    parsed: "row_item row ''date'' = Inr date_cell" "parse_datetime E date_cell tz = Inr start"
      "row_item row ''time'' = Inr time_cell"
      "parse_time_range E time_cell = Inr (start_time, end_time)"
    and ends: "end_after (replace_time start start_time) (replace_time start end_time) = Inr dtend"
    and cal: "cal = event_calendar (row_title row) (row_venue row)
                 (replace_time start start_time) dtend (row_description row) trigger"
    by blast
  note e = end_after_Inr [OF ends replace_time_microsecond]
  have "event_datetime cal ''dtstart'' = Some (replace_time start start_time)"
    "event_datetime cal ''dtend'' = Some dtend"
    unfolding cal by (rule event_calendar_datetime)+
  with parsed e show ?thesis
    unfolding replace_time_def by blast
qed

theorem build_event_composition_witness:
  "build_event env_jan5 row_seconds utc 30 =
     Inr (event_calendar ''Launch'' ''Room 1''
            \<lparr>ordinal = 738946, hour = 9, minute = 0, second = 30, microsecond = 0,
               tzinfo = Some utc_info\<rparr>
            \<lparr>ordinal = 738946, hour = 10, minute = 0, second = 45, microsecond = 0,
               tzinfo = Some utc_info\<rparr>
            (row_description row_seconds)
            \<lparr>days = - 1, seconds = 84600, microseconds = 0\<rparr>)
   \<and> (\<exists>start start_time end_time.
         parse_datetime env_jan5 (DateTime march1) utc = Inr start
         \<and> parse_time_range env_jan5 (Str ''9:00:30 - 10:00:45'') = Inr (start_time, end_time)
         \<and> start\<lparr>hour := t_hour start_time, minute := t_minute start_time,
                   second := t_second start_time, microsecond := 0\<rparr>
             = \<lparr>ordinal = 738946, hour = 9, minute = 0, second = 30, microsecond = 0,
                tzinfo = Some utc_info\<rparr>
         \<and> start\<lparr>hour := t_hour end_time, minute := t_minute end_time,
                   second := t_second end_time, microsecond := 0\<rparr>
             = \<lparr>ordinal = 738946, hour = 10, minute = 0, second = 45, microsecond = 0,
                tzinfo = Some utc_info\<rparr>)"
proof -
  from build_event_composition [OF build_event_row_seconds]
  obtain date_cell start time_cell start_time end_time where
    "row_item row_seconds ''date'' = Inr date_cell"
    "parse_datetime env_jan5 date_cell utc = Inr start"
    "row_item row_seconds ''time'' = Inr time_cell"
    "parse_time_range env_jan5 time_cell = Inr (start_time, end_time)"
    by blast
  then show ?thesis
    using build_event_row_seconds
    by (auto simp: row_item_def row_seconds_def parse_datetime_march1 parse_time_range_seconds)
qed

section \<open>Properties of a blank title\<close>

lemma strip_with_Nil_iff: "strip_with p s = [] \<longleftrightarrow> (\<forall>c \<in> set s. p c)"
proof
  assume "strip_with p s = []"
  then have "\<forall>c \<in> set (dropWhile p s). p c"
    by (simp add: strip_with_def dropWhile_eq_Nil_conv)
  then have "dropWhile p s = []"
    by (metis hd_dropWhile list.set_sel(1))
  then show "\<forall>c \<in> set s. p c"
    by (simp add: dropWhile_eq_Nil_conv)
next
  assume all: "\<forall>c \<in> set s. p c"
  then show "strip_with p s = []"
    by (auto simp: strip_with_def dest: set_dropWhileD)
qed

lemma isspace_not_name_char: "isspace c \<Longrightarrow> \<not> name_char c"
  by (auto simp: isspace_def name_char_def Let_def)

lemma re_sub_unsafe_blank:
  assumes "\<forall>c \<in> set s. \<not> name_char c"
  shows "re_sub_unsafe s = (if s = [] then [] else ''_'')"
proof (cases s)
  case Nil
  then show ?thesis by simp
next
  case (Cons c cs)
  with assms have "\<forall>x \<in> set cs. \<not> name_char x" by simp
  then have drop: "dropWhile (\<lambda>x. \<not> name_char x) cs = []"
    using dropWhile_eq_Nil_conv [of "\<lambda>x. \<not> name_char x" cs] by blast
  from Cons assms have "\<not> name_char c" by simp
  then have "re_sub_unsafe (c # cs)
               = CHR ''_'' # re_sub_unsafe (dropWhile (\<lambda>x. \<not> name_char x) cs)"
    by simp
  also have "\<dots> = ''_''"
    by (simp only: drop re_sub_unsafe.simps(1))
  finally show ?thesis using Cons by simp
qed

lemma safe_filename_blank:
  assumes "strip s = []"
  shows "safe_filename s idx = ''event_'' @ str_int idx @ ''.ics''"
proof -
  from assms have "\<forall>c \<in> set s. \<not> name_char c"
    by (auto simp: strip_def strip_with_Nil_iff dest: isspace_not_name_char)
  then have "re_sub_unsafe s = (if s = [] then [] else ''_'')"
    by (rule re_sub_unsafe_blank)
  then have "strip_chars ''_'' (re_sub_unsafe s) = []"
    by (simp add: strip_chars_def strip_with_def)
  then show ?thesis
    by (simp add: safe_filename_def)
qed


lemma to_dict_frame_blank:
  "to_dict [''title'', ''date'', ''time'', ''venue'']
     [Str ''  '', DateTime march1, Str ''9:00 - 10:00'', Str ''Room 1'']
   = [(''title'', Str ''  ''), (''date'', DateTime march1),
      (''time'', Str ''9:00 - 10:00''), (''venue'', Str ''Room 1'')]"
  by (simp add: to_dict_def)

lemma strip_blank: "strip ''  '' = []"
  by code_simp

lemma str_int_1: "str_int 1 = ''1''"
  by code_simp

lemma build_event_frame_blank:
  "build_event env_jan5
     [(''title'', Str ''  ''), (''date'', DateTime march1),
      (''time'', Str ''9:00 - 10:00''), (''venue'', Str ''Room 1'')] utc 30 =
     Inr (event_calendar ''Event'' ''Room 1''
            \<lparr>ordinal = 738946, hour = 9, minute = 0, second = 0, microsecond = 0,
               tzinfo = Some utc_info\<rparr>
            \<lparr>ordinal = 738946, hour = 10, minute = 0, second = 0, microsecond = 0,
               tzinfo = Some utc_info\<rparr>
            (row_description
               [(''title'', Str ''  ''), (''date'', DateTime march1),
                (''time'', Str ''9:00 - 10:00''), (''venue'', Str ''Room 1'')])
            \<lparr>days = - 1, seconds = 84600, microseconds = 0\<rparr>)"
  by (simp add: build_event_eq row_item_def row_title_def row_venue_def row_get_def
      strip_values strip_blank parse_datetime_march1 parse_time_range_values
      replace_time_def end_after_def datetime_le_def datetime_lt_def same_fields_def
      timedelta_new_values)

lemma map_of_dict_set:
  "map_of (dict_set k v d) k' = (if k' = k then Some v else map_of d k')"
  by (induction d) auto

lemma map_of_foldl_dict_set:
  "map_of (foldl (\<lambda>d (k, v). dict_set k v d) d0 kvs) k' =
     (case map_of (rev kvs) k' of None \<Rightarrow> map_of d0 k' | Some v \<Rightarrow> Some v)"
proof (induction kvs arbitrary: d0)
  case Nil
  then show ?case by simp
next
  case (Cons kv kvs)
  obtain k v where kv: "kv = (k, v)" by (cases kv)
  show ?case
    by (simp add: Cons.IH kv map_of_dict_set map_add_def split: option.splits)
qed

lemma map_of_filter_key: "map_of (filter (\<lambda>kv. fst kv = k) xs) k = map_of xs k"
  by (induction xs) auto

lemma map_of_rev_single:
  assumes "filter (\<lambda>kv. fst kv = k) kvs = [(k, v)]"
  shows "map_of (rev kvs) k = Some v"
proof -
  have "map_of (rev kvs) k = map_of (filter (\<lambda>kv. fst kv = k) (rev kvs)) k"
    by (simp only: map_of_filter_key)
  also have "\<dots> = map_of (rev (filter (\<lambda>kv. fst kv = k) kvs)) k"
    by (simp only: rev_filter)
  also have "\<dots> = Some v"
    by (simp add: assms)
  finally show ?thesis .
qed

text \<open>When one column has the label, the dict of the row and the Series of the row hold
  the same cell under it.\<close>

lemma single_label:
  assumes "filter (\<lambda>kv. fst kv = key) (zip cols r) = [(key, v)]"
  shows "map_of (to_dict cols r) key = Some v"
    and "series_get E idx cols r key dflt = v"
proof -
  show "map_of (to_dict cols r) key = Some v"
    by (simp add: to_dict_def map_of_foldl_dict_set map_of_rev_single [OF assms])
  show "series_get E idx cols r key dflt = v"
    by (simp add: series_get_def assms)
qed

text \<open>When two columns have the label, the Series of the row gives the Series of the two
  cells, and the file name is made from its text.\<close>

lemma series_get_repeated:
  "series_get E idx [''title'', ''date'', ''time'', ''venue'', ''title'']
     [Str ''A'', d, t, v, Str []] ''title'' dflt
   = Other (series_text E idx [(''title'', Str ''A''), (''title'', Str [])])"
  by (simp add: series_get_def)

lemma title_frame_blank:
  "filter (\<lambda>kv. fst kv = ''title'')
     (zip [''title'', ''date'', ''time'', ''venue'']
        [Str ''  '', DateTime march1, Str ''9:00 - 10:00'', Str ''Room 1''])
   = [(''title'', Str ''  '')]"
  by simp

text \<open>
  C3, as stated, fails: the file name is made from the title cell as it is in the row,
  not from the title of the event, and \<open>safe_filename\<close> puts \<open>event\<close>, in lower case,
  for a name that is left empty. A frame whose only row has a blank title is written to
  \<open>event_1.ics\<close>, while the summary of the event is \<open>Event\<close>.
\<close>

theorem blank_title_filename_counterexample:
  "map fst (files (snd (main env_jan5 utc args_demo frame_blank empty_world)))
     = [''ics_output/event_1.ics'']
   \<and> map (\<lambda>f. event_text (snd f) ''summary'')
        (files (snd (main env_jan5 utc args_demo frame_blank empty_world)))
     = [Some ''Event'']"
proof -
  have n: "normalized [''title'', ''date'', ''time'', ''venue'']
             = [''title'', ''date'', ''time'', ''venue'']"
    by code_simp
  have "normalize_columns frame_blank = Inr frame_blank"
    by (simp add: normalize_columns_eq missing_sorted_def n frame_blank_def)
  then show ?thesis
    by (simp add: main_def frame_blank_def args_demo_def empty_world_def to_dict_frame_blank
        build_event_frame_blank single_label(2) [OF title_frame_blank] safe_filename_blank
        strip_blank str_int_1 event_calendar_text Let_def)
qed

text \<open>
  C3, amended. For a row with one column under the label \<open>title\<close>, whose cell is a
  string that is empty or holds blanks only, the summary of the event defaults to
  \<open>Event\<close>, and the file of the row, at the label \<open>idx\<close> counted from 0, is named
  \<open>event_{idx + 1}.ics\<close>: the file name falls back to \<open>event\<close> in lower case.
\<close>

theorem blank_title_filename:
  assumes "filter (\<lambda>kv. fst kv = ''title'') (zip cols r) = [(''title'', Str s)]"
    and "strip s = []"
    and "build_event E (to_dict cols r) tz (alert_minutes a) = Inr cal"
  shows "event_text cal ''summary'' = Some ''Event''
         \<and> write_rows E tz a cols idx (r # rs) w =
             write_rows E tz a cols (idx + 1) rs
               (w\<lparr>files := files w
                      @ [(output_dir a @ ''/'' @ ''event_'' @ str_int (idx + 1) @ ''.ics'', cal)],
                   printed := printed w
                      @ [''Wrote '' @ output_dir a @ ''/'' @ ''event_'' @ str_int (idx + 1)
                         @ ''.ics'']\<rparr>)"
proof -
  note one = single_label [OF assms(1)]
  have title: "row_title (to_dict cols r) = ''Event''"
    using one(1) assms(2) by (simp add: row_title_def row_get_def)
  from build_event_InrD [OF assms(3)] obtain ds de trigger where
    "cal = event_calendar (row_title (to_dict cols r)) (row_venue (to_dict cols r))
             ds de (row_description (to_dict cols r)) trigger"
    by blast
  with title have "event_text cal ''summary'' = Some ''Event''"
    by (simp add: event_calendar_text)
  moreover have "safe_filename (str_cell (series_get E idx cols r ''title'' (Str ''event'')))
                   (idx + 1) = ''event_'' @ str_int (idx + 1) @ ''.ics''"
    using assms(2) by (simp add: one(2) safe_filename_blank)
  ultimately show ?thesis
    using assms(3) by (simp add: Let_def)
qed

theorem blank_title_filename_witness:
  "filter (\<lambda>kv. fst kv = ''title'') (zip (columns frame_blank) (hd (cells frame_blank)))
     = [(''title'', Str ''  '')]
   \<and> strip ''  '' = []
   \<and> (\<exists>cal. build_event env_jan5 (to_dict (columns frame_blank) (hd (cells frame_blank))) utc
                (alert_minutes args_demo) = Inr cal
         \<and> event_text cal ''summary'' = Some ''Event''
         \<and> write_rows env_jan5 utc args_demo (columns frame_blank) 0 (cells frame_blank)
              empty_world
            = (Inr (), \<lparr>dirs = [], files = [(''ics_output/event_1.ics'', cal)],
                        printed = [''Wrote ics_output/event_1.ics'']\<rparr>))"
proof -
  have d: "to_dict (columns frame_blank) (hd (cells frame_blank))
       = [(''title'', Str ''  ''), (''date'', DateTime march1),
          (''time'', Str ''9:00 - 10:00''), (''venue'', Str ''Room 1'')]"
    by (simp add: frame_blank_def to_dict_frame_blank)
  have t: "filter (\<lambda>kv. fst kv = ''title'')
             (zip (columns frame_blank) (hd (cells frame_blank)))
           = [(''title'', Str ''  '')]"
    by (simp add: frame_blank_def)
  have b: "build_event env_jan5 (to_dict (columns frame_blank) (hd (cells frame_blank))) utc
             (alert_minutes args_demo)
           = Inr (event_calendar ''Event'' ''Room 1''
            \<lparr>ordinal = 738946, hour = 9, minute = 0, second = 0, microsecond = 0,
               tzinfo = Some utc_info\<rparr>
            \<lparr>ordinal = 738946, hour = 10, minute = 0, second = 0, microsecond = 0,
               tzinfo = Some utc_info\<rparr>
            (row_description
               [(''title'', Str ''  ''), (''date'', DateTime march1),
                (''time'', Str ''9:00 - 10:00''), (''venue'', Str ''Room 1'')])
            \<lparr>days = - 1, seconds = 84600, microseconds = 0\<rparr>)"
    unfolding d by (simp add: args_demo_def build_event_frame_blank)
  have c: "cells frame_blank = hd (cells frame_blank) # []"
    by (simp add: frame_blank_def)
  note inst = blank_title_filename [OF t strip_blank b, of 0 "[]" empty_world]
  from inst show ?thesis
    using t strip_blank b c
    by (simp add: args_demo_def empty_world_def str_int_1)
qed

section \<open>Properties of the date\<close>

lemma parse_datetime_eq:
  "parse_datetime E v tz = (case read_value E v of Inl e \<Rightarrow> Inl e | Inr d \<Rightarrow> to_zone tz d)"
  by (simp add: parse_datetime_def read_value_def to_zone_def split: cell.splits sum.splits)

text \<open>
  C8, as stated, fails: a value may be a date and the operation may fail all the same.
  Converting an aware datetime to the zone subtracts its offset, and at the first
  instant of the range of dates, five hours east of UTC, the result lies before the
  range: \<open>OverflowError\<close>.
\<close>

theorem parse_datetime_overflow_counterexample:
  "parse_datetime env_jan5 (DateTime year1_east) utc = Inl OverflowError"
  by (simp add: parse_datetime_def year1_east_def utc_def datetime_add_def MAXORDINAL_def)

text \<open>
  C8, amended. \<open>parse_datetime\<close> uses the cell as it is when it is a datetime and parses
  its text otherwise; a naive result is localised to the zone and an aware one is
  converted to it. The operation fails when the text cannot be parsed, with the parser's
  error, and otherwise exactly when the localisation or the conversion fails. In the
  zone UTC a naive value never fails and, on success, the result carries the zone.
\<close>

theorem parse_datetime_steps:
  "(\<forall>d. v = DateTime d \<longrightarrow> read_value E v = Inr d)
   \<and> ((\<forall>d. v \<noteq> DateTime d) \<longrightarrow> read_value E v = date_parser_parse E (str_cell v))
   \<and> (\<forall>e. read_value E v = Inl e \<longrightarrow> parse_datetime E v tz = Inl e)
   \<and> (\<forall>d. read_value E v = Inr d \<longrightarrow>
         parse_datetime E v tz
           = (case tzinfo d of None \<Rightarrow> localize tz d | Some ti \<Rightarrow> astimezone tz d))
   \<and> ((\<exists>e. parse_datetime E v tz = Inl e) \<longleftrightarrow>
        ((\<exists>e. read_value E v = Inl e)
         \<or> (\<exists>d e. read_value E v = Inr d \<and> to_zone tz d = Inl e)))
   \<and> (\<forall>d. read_value E v = Inr d \<longrightarrow> tzinfo d = None \<longrightarrow>
         parse_datetime E v utc = Inr (d\<lparr>tzinfo := Some utc_info\<rparr>))
   \<and> (\<forall>r. parse_datetime E v utc = Inr r \<longrightarrow> tzinfo r = Some utc_info)"
proof -
  have c1: "\<forall>d. v = DateTime d \<longrightarrow> read_value E v = Inr d"
    by (simp add: read_value_def)
  have c2: "(\<forall>d. v \<noteq> DateTime d) \<longrightarrow> read_value E v = date_parser_parse E (str_cell v)"
    by (cases v) (simp_all add: read_value_def)
  have c3: "\<forall>e. read_value E v = Inl e \<longrightarrow> parse_datetime E v tz = Inl e"
    by (simp add: parse_datetime_eq)
  have c4: "\<forall>d. read_value E v = Inr d \<longrightarrow>
         parse_datetime E v tz
           = (case tzinfo d of None \<Rightarrow> localize tz d | Some ti \<Rightarrow> astimezone tz d)"
    by (simp add: parse_datetime_eq to_zone_def)
  have c5: "(\<exists>e. parse_datetime E v tz = Inl e) \<longleftrightarrow>
        ((\<exists>e. read_value E v = Inl e)
         \<or> (\<exists>d e. read_value E v = Inr d \<and> to_zone tz d = Inl e))"
    by (cases "read_value E v") (simp_all add: parse_datetime_eq)
  have c6: "\<forall>d. read_value E v = Inr d \<longrightarrow> tzinfo d = None \<longrightarrow>
         parse_datetime E v utc = Inr (d\<lparr>tzinfo := Some utc_info\<rparr>)"
    by (simp add: parse_datetime_eq to_zone_def utc_def)
  have utc_zone: "tzinfo r = Some utc_info" if "to_zone utc d = Inr r" for d r
  proof (cases "tzinfo d")
    case None
    with that show ?thesis by (auto simp: to_zone_def utc_def)
  next
    case (Some ti)
    with that show ?thesis
      by (cases "datetime_add d \<lparr>days = 0, seconds = - utcoffset ti, microseconds = 0\<rparr>")
         (auto simp: to_zone_def utc_def)
  qed
  have c7: "\<forall>r. parse_datetime E v utc = Inr r \<longrightarrow> tzinfo r = Some utc_info"
    by (cases "read_value E v") (auto simp: parse_datetime_eq dest: utc_zone)
  from c1 c2 c3 c4 c5 c6 c7 show ?thesis
    by (intro conjI)
qed

theorem parse_datetime_steps_witness:
  "read_value env_jan5 (DateTime march1) = Inr march1 \<and> tzinfo march1 = None
   \<and> parse_datetime env_jan5 (DateTime march1) utc = Inr (march1\<lparr>tzinfo := Some utc_info\<rparr>)
   \<and> (\<forall>d. Str ''soon'' \<noteq> DateTime d)
   \<and> read_value env_jan5 (Str ''soon'') = Inl (ParserError ''soon'')
   \<and> parse_datetime env_jan5 (Str ''soon'') utc = Inl (ParserError ''soon'')
   \<and> read_value env_jan5 (DateTime year1_east) = Inr year1_east
   \<and> to_zone utc year1_east = Inl OverflowError
   \<and> (\<exists>e. parse_datetime env_jan5 (DateTime year1_east) utc = Inl e)"
proof -
  have soon: "date_parser_parse env_jan5 ''soon'' = Inl (ParserError ''soon'')"
    by (simp add: date_parser_parse_def env_jan5_def clock_parser_def clock_field_def
        digit_of_def)
  have r1: "read_value env_jan5 (DateTime march1) = Inr march1"
    and r2: "read_value env_jan5 (Str ''soon'') = Inl (ParserError ''soon'')"
    and r3: "read_value env_jan5 (DateTime year1_east) = Inr year1_east"
    by (simp_all add: read_value_def soon)
  have n: "tzinfo march1 = None"
    by (simp add: march1_def)
  have z: "to_zone utc year1_east = Inl OverflowError"
    by (simp add: to_zone_def year1_east_def utc_def datetime_add_def MAXORDINAL_def)
  note a = parse_datetime_steps [of "DateTime march1" env_jan5 utc]
  note b = parse_datetime_steps [of "Str ''soon''" env_jan5 utc]
  note c = parse_datetime_steps [of "DateTime year1_east" env_jan5 utc]
  from a have "\<forall>d. read_value env_jan5 (DateTime march1) = Inr d \<longrightarrow> tzinfo d = None \<longrightarrow>
      parse_datetime env_jan5 (DateTime march1) utc = Inr (d\<lparr>tzinfo := Some utc_info\<rparr>)"
    by (elim conjE)
  with r1 n have "parse_datetime env_jan5 (DateTime march1) utc
      = Inr (march1\<lparr>tzinfo := Some utc_info\<rparr>)"
    by blast
  moreover from b have "\<forall>e. read_value env_jan5 (Str ''soon'') = Inl e
      \<longrightarrow> parse_datetime env_jan5 (Str ''soon'') utc = Inl e"
    by (elim conjE)
  with r2 have "parse_datetime env_jan5 (Str ''soon'') utc = Inl (ParserError ''soon'')"
    by blast
  moreover from c have "(\<exists>e. parse_datetime env_jan5 (DateTime year1_east) utc = Inl e) \<longleftrightarrow>
        ((\<exists>e. read_value env_jan5 (DateTime year1_east) = Inl e)
         \<or> (\<exists>d e. read_value env_jan5 (DateTime year1_east) = Inr d \<and> to_zone utc d = Inl e))"
    by (elim conjE)
  with r3 z have "\<exists>e. parse_datetime env_jan5 (DateTime year1_east) utc = Inl e"
    by blast
  ultimately show ?thesis
    using r1 r2 r3 n z by simp
qed

section \<open>Properties across runs\<close>

lemma date_parser_parse_same_day:
  assumes "parser E1 = parser E2" and "ordinal (now E1) = ordinal (now E2)"
    and "tzinfo (now E1) = tzinfo (now E2)"
  shows "date_parser_parse E1 s = date_parser_parse E2 s"
proof -
  have "(now E1)\<lparr>hour := 0, minute := 0, second := 0, microsecond := 0\<rparr>
          = (now E2)\<lparr>hour := 0, minute := 0, second := 0, microsecond := 0\<rparr>"
    using assms(2,3) by (intro datetime.equality) simp_all
  with assms(1) show ?thesis
    by (simp add: date_parser_parse_def)
qed

lemma split_on_noon: "split_on (CHR '':'') ''12:00'' = [''12'', ''00'']"
  by simp

lemma clock_field_noon: "clock_field ''12'' = Some 12"
  by (simp add: clock_field_def digit_of_def)

lemma clock_parser_noon: "clock_parser d ''12:00'' = Inr (d\<lparr>hour := 12, minute := 0\<rparr>)"
  by (simp add: clock_parser_def split_on_noon clock_field_noon clock_field_values)

lemma strip_standup: "strip ''Standup'' = ''Standup''"
  by code_simp

lemma build_event_row_clock_date:
  assumes "parser E = clock_parser" and "tzinfo (now E) = None"
  shows "build_event E row_clock_date utc 30 =
     Inr (event_calendar ''Standup'' []
            \<lparr>ordinal = ordinal (now E), hour = 9, minute = 0, second = 0, microsecond = 0,
               tzinfo = Some utc_info\<rparr>
            \<lparr>ordinal = ordinal (now E), hour = 10, minute = 0, second = 0, microsecond = 0,
               tzinfo = Some utc_info\<rparr>
            (row_description row_clock_date)
            \<lparr>days = - 1, seconds = 84600, microseconds = 0\<rparr>)"
proof -
  define d0 where "d0 = (now E)\<lparr>hour := 0, minute := 0, second := 0, microsecond := 0\<rparr>"
  have p: "date_parser_parse E ''12:00'' = Inr (d0\<lparr>hour := 12, minute := 0\<rparr>)"
    "date_parser_parse E ''9:00'' = Inr (d0\<lparr>hour := 9, minute := 0\<rparr>)"
    "date_parser_parse E ''10:00'' = Inr (d0\<lparr>hour := 10, minute := 0\<rparr>)"
    by (simp_all add: date_parser_parse_def assms(1) clock_parser_noon clock_parser_values d0_def)
  have naive: "tzinfo d0 = None"
    by (simp add: d0_def assms(2))
  have start: "parse_datetime E (Str ''12:00'') utc
                 = Inr (d0\<lparr>hour := 12, minute := 0, tzinfo := Some utc_info\<rparr>)"
    using naive by (simp add: parse_datetime_def p utc_def)
  have range: "parse_time_range E (Str ''9:00 - 10:00'')
                 = Inr (time_of (d0\<lparr>hour := 9, minute := 0\<rparr>), time_of (d0\<lparr>hour := 10, minute := 0\<rparr>))"
    by (simp add: parse_time_range_def re_split_values p)
  have cells: "row_item row_clock_date ''date'' = Inr (Str ''12:00'')"
    "row_item row_clock_date ''time'' = Inr (Str ''9:00 - 10:00'')"
    by (simp_all add: row_item_def row_clock_date_def)
  have names: "row_title row_clock_date = ''Standup''" "row_venue row_clock_date = []"
    by (simp_all add: row_title_def row_venue_def row_get_def row_clock_date_def strip_values
        strip_standup)
  have fields: "ordinal d0 = ordinal (now E)" "second d0 = 0" "microsecond d0 = 0"
    by (simp_all add: d0_def)
  have s: "replace_time (d0\<lparr>hour := 12, minute := 0, tzinfo := Some utc_info\<rparr>)
             (time_of (d0\<lparr>hour := 9, minute := 0\<rparr>))
           = \<lparr>ordinal = ordinal (now E), hour = 9, minute = 0, second = 0, microsecond = 0,
               tzinfo = Some utc_info\<rparr>"
    "replace_time (d0\<lparr>hour := 12, minute := 0, tzinfo := Some utc_info\<rparr>)
             (time_of (d0\<lparr>hour := 10, minute := 0\<rparr>))
           = \<lparr>ordinal = ordinal (now E), hour = 10, minute = 0, second = 0, microsecond = 0,
               tzinfo = Some utc_info\<rparr>"
    using fields by (simp_all add: replace_time_def time_of_def)
  show ?thesis
    by (simp add: build_event_eq cells start range names s end_after_def datetime_le_def
        datetime_lt_def same_fields_def timedelta_new_values)
qed

text \<open>
  C10, as stated, fails: the parser fills the fields that a text does not give from
  today's date, so two runs on the same row, zone and alert on different days can
  differ. A date cell that holds a clock text only, \<open>12:00\<close>, gives an event on
  2024-01-05 in a run on that day and on 2024-01-06 in a run on the next day.
\<close>

theorem build_event_clock_counterexample:
  "map_option ordinal (result_datetime (build_event env_jan5 row_clock_date utc 30) ''dtstart'')
     = Some 738890
   \<and> map_option ordinal (result_datetime (build_event env_jan6 row_clock_date utc 30) ''dtstart'')
     = Some 738891
   \<and> build_event env_jan5 row_clock_date utc 30 \<noteq> build_event env_jan6 row_clock_date utc 30"
proof -
  have a: "map_option ordinal
      (result_datetime (build_event env_jan5 row_clock_date utc 30) ''dtstart'') = Some 738890"
    by (simp add: build_event_row_clock_date env_jan5_def result_datetime_def
        event_calendar_datetime)
  have b: "map_option ordinal
      (result_datetime (build_event env_jan6 row_clock_date utc 30) ''dtstart'') = Some 738891"
    by (simp add: build_event_row_clock_date env_jan6_def result_datetime_def
        event_calendar_datetime)
  have "build_event env_jan5 row_clock_date utc 30
          \<noteq> build_event env_jan6 row_clock_date utc 30"
  proof
    assume "build_event env_jan5 row_clock_date utc 30
              = build_event env_jan6 row_clock_date utc 30"
    with a b have "Some (738890 :: nat) = Some 738891" by simp
    then show False by simp
  qed
  with a b show ?thesis by (intro conjI)
qed

text \<open>
  C10, amended. \<open>build_event\<close> is a function of the row, the zone, the alert minutes,
  the parser and the date that the clock shows: two runs with the same parser whose
  clocks show the same day give the same result, whatever the time of day.
\<close>

theorem build_event_same_day:
  assumes "parser E1 = parser E2" and "ordinal (now E1) = ordinal (now E2)"
    and "tzinfo (now E1) = tzinfo (now E2)"
  shows "build_event E1 row tz a = build_event E2 row tz a"
proof -
  have p: "date_parser_parse E1 = date_parser_parse E2"
    using date_parser_parse_same_day [OF assms] by (intro ext)
  have d: "parse_datetime E1 = parse_datetime E2"
    unfolding parse_datetime_def p by (rule refl)
  have t: "parse_time_range E1 = parse_time_range E2"
    unfolding parse_time_range_def p by (rule refl)
  show ?thesis
    unfolding build_event_eq d t by (rule refl)
qed

theorem build_event_same_day_witness:
  "parser env_jan5 = parser env_jan5_late
   \<and> ordinal (now env_jan5) = ordinal (now env_jan5_late)
   \<and> tzinfo (now env_jan5) = tzinfo (now env_jan5_late)
   \<and> now env_jan5 \<noteq> now env_jan5_late
   \<and> build_event env_jan5 row_clock_date utc 30 = build_event env_jan5_late row_clock_date utc 30"
proof -
  have h: "parser env_jan5 = parser env_jan5_late"
    "ordinal (now env_jan5) = ordinal (now env_jan5_late)"
    "tzinfo (now env_jan5) = tzinfo (now env_jan5_late)"
    by (simp_all add: env_jan5_def env_jan5_late_def)
  have d: "now env_jan5 \<noteq> now env_jan5_late"
    by (simp add: env_jan5_def env_jan5_late_def)
  from build_event_same_day [OF h] h d show ?thesis
    by simp
qed

end
